theory Spec2Isabelle
  imports Complex_Main
begin

section \<open>Python values, exceptions and arrays\<close>

text \<open>
  The HyperIT class (src/HyperIT/it.py) is embedded function by function, and with it
  \<open>compute_te\<close> of the earlier module (src/IT-Hyperscanning/it.py). Python
  exceptions are values of type \<open>error\<close>; a function that may raise returns
  \<open>error + 'a\<close> with \<open>Inl\<close> carrying the exception. Every \<open>ValueError\<close> keeps
  a tag naming the place that raises it.
\<close>

datatype value_error =
    DataShapeMismatch
  | DataDimensions
  | ChannelNamesFormat
  | ChannelNamesLength
  | ROINotRecognised
  | ROIGroupCount
  | ROICardinality
  | NotInList
  | Unpack
  | EstimatorNotSupported
  | NaNToInteger
  | EmptyReduction
  | HistogramInput
  | Broadcast
  | NegativeDimensions
  | UnepochedDimensions

datatype error =
    ValueError value_error
  | IndexError
  | TypeError
  | AttributeError
  | OverflowError
  | UnboundLocalError
  | JavaException
  | AssertionError

fun ebind :: "'e + 'a \<Rightarrow> ('a \<Rightarrow> 'e + 'b) \<Rightarrow> 'e + 'b" where
  "ebind (Inl e) f = Inl e"
| "ebind (Inr x) f = f x"

text \<open>A \<open>for\<close> loop whose body may raise: the first exception ends the loop.\<close>

fun for_each :: "('a \<Rightarrow> 's \<Rightarrow> 'e + 's) \<Rightarrow> 'a list \<Rightarrow> 's \<Rightarrow> 'e + 's" where
  "for_each body [] s = Inr s"
| "for_each body (x # xs) s = ebind (body x s) (for_each body xs)"

text \<open>A list comprehension whose element expression may raise.\<close>

fun map_err :: "('a \<Rightarrow> 'e + 'b) \<Rightarrow> 'a list \<Rightarrow> 'e + 'b list" where
  "map_err f [] = Inr []"
| "map_err f (x # xs) = ebind (f x) (\<lambda>y. ebind (map_err f xs) (\<lambda>ys. Inr (y # ys)))"

text \<open>
  Python objects that reach the class as channel names, ROI specifications and index
  lists: strings, integers and (arbitrarily nested) lists of them.
\<close>

datatype pyval = PStr string | PInt int | PList "pyval list"

fun is_list :: "pyval \<Rightarrow> bool" where
  "is_list (PList xs) = True"
| "is_list (PStr s) = False"
| "is_list (PInt k) = False"

fun is_str :: "pyval \<Rightarrow> bool" where
  "is_str (PStr s) = True"
| "is_str (PList xs) = False"
| "is_str (PInt k) = False"

text \<open>\<open>len(v)\<close>: an integer has no length.\<close>

fun py_len :: "pyval \<Rightarrow> error + nat" where
  "py_len (PList xs) = Inr (length xs)"
| "py_len (PStr s) = Inr (length s)"
| "py_len (PInt k) = Inl TypeError"

text \<open>\<open>for item in v\<close>: a string iterates over its one-character strings.\<close>

fun py_iter :: "pyval \<Rightarrow> error + pyval list" where
  "py_iter (PList xs) = Inr xs"
| "py_iter (PStr s) = Inr (map (\<lambda>c. PStr [c]) s)"
| "py_iter (PInt k) = Inl TypeError"

text \<open>\<open>xs[i]\<close> for a loop index or a literal index \<open>i \<ge> 0\<close>.\<close>

definition nth_err :: "'a list \<Rightarrow> nat \<Rightarrow> error + 'a" where
  "nth_err xs i = (if i < length xs then Inr (xs ! i) else Inl IndexError)"

text \<open>\<open>xs[k]\<close> for an integer supplied by the caller: negative \<open>k\<close> counts from the end.\<close>

definition py_index :: "'a list \<Rightarrow> int \<Rightarrow> error + 'a" where
  "py_index xs k =
     (if 0 \<le> k \<and> k < int (length xs) then Inr (xs ! nat k)
      else if k < 0 \<and> - int (length xs) \<le> k then Inr (xs ! nat (int (length xs) + k))
      else Inl IndexError)"

fun py_getitem :: "pyval \<Rightarrow> nat \<Rightarrow> error + pyval" where
  "py_getitem (PList xs) i = nth_err xs i"
| "py_getitem (PStr s) i = ebind (nth_err s i) (\<lambda>c. Inr (PStr [c]))"
| "py_getitem (PInt k) i = Inl TypeError"

text \<open>\<open>list.index(x)\<close>: position of the first equal element, \<open>ValueError\<close> if none.\<close>

fun list_index :: "pyval list \<Rightarrow> pyval \<Rightarrow> error + nat" where
  "list_index [] x = Inl (ValueError NotInList)"
| "list_index (y # ys) x =
     (if y = x then Inr 0 else ebind (list_index ys x) (\<lambda>i. Inr (Suc i)))"

text \<open>\<open>str.index(sub)\<close>: start of the first occurrence of \<open>sub\<close>.\<close>

fun str_index :: "string \<Rightarrow> string \<Rightarrow> error + nat" where
  "str_index [] sub = (if sub = [] then Inr 0 else Inl (ValueError NotInList))"
| "str_index (c # cs) sub =
     (if take (length sub) (c # cs) = sub then Inr 0
      else ebind (str_index cs sub) (\<lambda>i. Inr (Suc i)))"

text \<open>
  A numpy array of floats, of any dimension, as nested lists. Finite floating-point
  values are idealised as real numbers throughout. An array whose leading axis is empty
  carries no trailing shape: \<open>Arr []\<close> is the empty one-dimensional array, and an
  array with an empty axis before other axes, such as \<open>np.zeros((0, 3))\<close>, has no
  representation here.
\<close>

datatype ndarray = Num real | Arr "ndarray list"

fun shape :: "ndarray \<Rightarrow> nat list" where
  "shape (Num r) = []"
| "shape (Arr []) = [0]"
| "shape (Arr (x # xs)) = Suc (length xs) # shape x"

definition ndim :: "ndarray \<Rightarrow> nat" where
  "ndim a = length (shape a)"

text \<open>The sub-arrays along the first axis; a scalar cannot be indexed.\<close>

fun axis0 :: "ndarray \<Rightarrow> error + ndarray list" where
  "axis0 (Arr xs) = Inr xs"
| "axis0 (Num r) = Inl IndexError"

text \<open>A one-dimensional array as the list of its samples.\<close>

fun scalar :: "ndarray \<Rightarrow> real option" where
  "scalar (Num r) = Some r"
| "scalar (Arr xs) = None"

fun vec :: "ndarray \<Rightarrow> real list option" where
  "vec (Num r) = None"
| "vec (Arr xs) = (if list_all (\<lambda>x. scalar x \<noteq> None) xs then Some (map (\<lambda>x. the (scalar x)) xs) else None)"

text \<open>
  The samples of an array in row-major order, as the reductions over a flattened array
  see them, and the one-dimensional array of a sequence of samples.
\<close>

fun flat :: "ndarray \<Rightarrow> real list" where
  "flat (Num r) = [r]"
| "flat (Arr xs) = concat (map flat xs)"

definition np_array :: "real list \<Rightarrow> ndarray" where
  "np_array xs = Arr (map Num xs)"

text \<open>
  \<open>a[idx]\<close> along the first axis, for an index that is an integer or a (nested) list
  of integers: the result has the nesting of the index, each integer replaced by the
  sub-array it selects. Index lists are taken to be rectangular, as the ROI checks
  leave them.
\<close>

fun fancy :: "ndarray list \<Rightarrow> pyval \<Rightarrow> error + ndarray"
  and fancy_list :: "ndarray list \<Rightarrow> pyval list \<Rightarrow> error + ndarray list" where
  "fancy rows (PInt k) = py_index rows k"
| "fancy rows (PStr s) = Inl IndexError"
| "fancy rows (PList ps) = ebind (fancy_list rows ps) (\<lambda>as. Inr (Arr as))"
| "fancy_list rows [] = Inr []"
| "fancy_list rows (p # ps) =
     ebind (fancy rows p) (\<lambda>a. ebind (fancy_list rows ps) (\<lambda>as. Inr (a # as)))"

text \<open>\<open>a[idx, :]\<close> and \<open>a[:, idx, :]\<close>.\<close>

definition take_channels :: "ndarray \<Rightarrow> pyval \<Rightarrow> error + ndarray" where
  "take_channels a idx = ebind (axis0 a) (\<lambda>rows. fancy rows idx)"

definition take_channels_epoched :: "ndarray \<Rightarrow> pyval \<Rightarrow> error + ndarray" where
  "take_channels_epoched a idx =
     ebind (axis0 a) (\<lambda>epochs.
     ebind (map_err (\<lambda>e. take_channels e idx) epochs) (\<lambda>es. Inr (Arr es)))"

text \<open>\<open>a[i, :]\<close> and \<open>a[:, i, :]\<close> for a loop index \<open>i\<close>.\<close>

definition channel :: "ndarray \<Rightarrow> nat \<Rightarrow> error + ndarray" where
  "channel a i = ebind (axis0 a) (\<lambda>rows. nth_err rows i)"

definition channel_epoched :: "ndarray \<Rightarrow> nat \<Rightarrow> error + ndarray" where
  "channel_epoched a i =
     ebind (axis0 a) (\<lambda>epochs.
     ebind (map_err (\<lambda>e. channel e i) epochs) (\<lambda>es. Inr (Arr es)))"

section \<open>The HyperIT object\<close>

text \<open>
  \<open>_initialise_parameter\<close> is \<open>None\<close>, the tuple \<open>(n, n)\<close> set by a grouped ROI, or
  the plain integer \<open>(2)\<close> set by the symbolic transfer-entropy estimator.
\<close>

datatype init_param = Dims nat nat | Base int

text \<open>
  The attributes of the object. \<open>soi_groups\<close> is \<open>None\<close> until a grouped ROI creates
  the attribute \<open>_soi_groups\<close>.
\<close>

record hyperit =
  channel_names :: pyval
  channel_indices1 :: pyval
  channel_indices2 :: pyval
  all_data :: "ndarray \<times> ndarray"
  data1 :: ndarray
  data2 :: ndarray
  roi :: pyval
  roi_specified :: bool
  scale_of_organisation :: nat
  soi_groups :: "nat option"
  inter_brain :: bool
  is_epoched :: bool
  initialise_parameter :: "init_param option"
  verbose :: bool
  n_epo :: nat
  n_chan :: nat
  n_samples :: nat

definition arange :: "nat \<Rightarrow> pyval" where
  "arange n = PList (map (\<lambda>i. PInt (int i)) [0..<n])"

text \<open>
  \<open>any(len(names) != n_channels for names in channel_names)\<close>, evaluated left to right
  and stopping at the first mismatch.
\<close>

fun any_len_differs :: "pyval list \<Rightarrow> nat \<Rightarrow> error + bool" where
  "any_len_differs [] n = Inr False"
| "any_len_differs (names # rest) n =
     ebind (py_len names) (\<lambda>k. if k \<noteq> n then Inr True else any_len_differs rest n)"

text \<open>
  \<open>__check_data\<close> (lines 274-311). The two data arguments are numpy arrays by type, so
  the first check cannot fail.
\<close>

definition check_data :: "hyperit \<Rightarrow> error + hyperit" where
  "check_data self =
     (if shape (data1 self) \<noteq> shape (data2 self) then Inl (ValueError DataShapeMismatch)
      else if ndim (data1 self) \<noteq> 2 \<and> ndim (data1 self) \<noteq> 3 then Inl (ValueError DataDimensions)
      else if \<not> is_list (channel_names self) then Inl (ValueError ChannelNamesFormat)
      else ebind (py_getitem (channel_names self) 0) (\<lambda>first.
        if is_str first then Inl (ValueError ChannelNamesFormat)
        else
          let names = (if \<not> inter_brain self \<and> is_list first
                       then PList [channel_names self, channel_names self]
                       else channel_names self);
              s1 = self\<lparr>channel_names := names\<rparr>;
              shp = shape (data1 self);
              s2 = (if is_epoched self
                    then s1\<lparr>n_epo := shp ! 0, n_chan := shp ! 1, n_samples := shp ! 2\<rparr>
                    else s1\<lparr>n_epo := 1, n_chan := shp ! 0, n_samples := shp ! 1\<rparr>);
              n_channels = (if is_epoched self then shp ! 1 else shp ! 0)
          in ebind (py_iter names) (\<lambda>sides.
             ebind (any_len_differs sides n_channels) (\<lambda>bad.
               if bad then Inl (ValueError ChannelNamesLength)
               else ebind (py_getitem names 0) (\<lambda>side0.
                    ebind (py_len side0) (\<lambda>l0.
                    let s3 = s2\<lparr>channel_indices1 := arange l0\<rparr>
                    in if 1 < length sides
                       then ebind (py_getitem names 1) (\<lambda>side1.
                            ebind (py_len side1) (\<lambda>l1.
                            Inr (s3\<lparr>channel_indices2 := arange l1\<rparr>)))
                       else Inr s3))))))"

text \<open>
  \<open>__init__\<close> (lines 29-63). Starting the JVM and printing are left out. With real
  samples, \<open>np.array_equal\<close> is equality of the arrays.
\<close>

definition init :: "ndarray \<Rightarrow> ndarray \<Rightarrow> pyval \<Rightarrow> bool \<Rightarrow> error + hyperit" where
  "init d1 d2 names verb =
     check_data \<lparr>channel_names = names,
                 channel_indices1 = PList [],
                 channel_indices2 = PList [],
                 all_data = (d1, d2),
                 data1 = d1,
                 data2 = d2,
                 roi = PList [],
                 roi_specified = False,
                 scale_of_organisation = 1,
                 soi_groups = None,
                 inter_brain = (d1 \<noteq> d2),
                 is_epoched = (ndim d1 = 3),
                 initialise_parameter = None,
                 verbose = verb,
                 n_epo = 0,
                 n_chan = 0,
                 n_samples = 0\<rparr>"

section \<open>Region of interest\<close>

text \<open>
  \<open>__convert_names_to_indices\<close> (lines 199-225). \<open>names.index(name)\<close> is the list
  method when the participant's channel names are a list and the string method when
  they are a string.
\<close>

fun index_of :: "pyval \<Rightarrow> string \<Rightarrow> error + nat" where
  "index_of (PList xs) name = list_index xs (PStr name)"
| "index_of (PStr s) name = str_index s name"
| "index_of (PInt k) name = Inl AttributeError"

fun name_to_index :: "pyval \<Rightarrow> pyval \<Rightarrow> error + pyval" where
  "name_to_index names (PStr name) = ebind (index_of names name) (\<lambda>i. Inr (PInt (int i)))"
| "name_to_index names (PInt k) = Inr (PInt k)"
| "name_to_index names (PList xs) = Inr (PList xs)"

definition convert_names_to_indices :: "hyperit \<Rightarrow> pyval \<Rightarrow> nat \<Rightarrow> error + pyval" where
  "convert_names_to_indices self roi_part participant =
     ebind (py_getitem (channel_names self) participant) (\<lambda>names.
     ebind (py_iter roi_part) (\<lambda>parts.
       if list_all is_list parts
       then ebind (map_err (\<lambda>group.
                     ebind (py_iter group) (\<lambda>members.
                     ebind (map_err (name_to_index names) members) (\<lambda>is. Inr (PList is))))
                   parts)
              (\<lambda>gs. Inr (PList gs))
       else if is_list roi_part
       then ebind (map_err (name_to_index names) parts) (\<lambda>is. Inr (PList is))
       else (case roi_part of
               PStr name \<Rightarrow> ebind (index_of names name) (\<lambda>i. Inr (PList [PInt (int i)]))
             | other \<Rightarrow> Inr other)))"

text \<open>The two structural tests of the setter (lines 134 and 140).\<close>

fun pointwise_half :: "pyval \<Rightarrow> bool" where
  "pointwise_half (PList items) = (\<not> list_ex is_list items)"
| "pointwise_half (PStr s) = False"
| "pointwise_half (PInt k) = False"

fun grouped_half :: "pyval \<Rightarrow> bool" where
  "grouped_half (PList items) = list_all is_list items"
| "grouped_half (PStr s) = False"
| "grouped_half (PInt k) = False"

fun items_of :: "pyval \<Rightarrow> pyval list" where
  "items_of (PList xs) = xs"
| "items_of (PStr s) = map (\<lambda>c. PStr [c]) s"
| "items_of (PInt k) = []"

text \<open>\<open>[len(group) for half in roi_list for group in half]\<close>, on halves that are lists of lists.\<close>

definition group_lengths :: "pyval list \<Rightarrow> nat list" where
  "group_lengths roi_list = concat (map (\<lambda>half. map (\<lambda>group. length (items_of group)) (items_of half)) roi_list)"

text \<open>
  The ROI setter (lines 114-181). A failed assignment returns the exception together
  with the object as the exception leaves it; the attribute writes happen in the order
  of the source. The part from the \<open>verbose\<close> print on is \<open>roi_assign\<close>, and the
  subsetting of the retained data for a pointwise ROI (lines 169-181) is \<open>roi_subset\<close>.
\<close>

definition roi_subset :: "hyperit \<Rightarrow> pyval \<Rightarrow> pyval \<Rightarrow> (error \<times> hyperit) + hyperit" where
  "roi_subset self ci1 ci2 =
     (if scale_of_organisation self = 1
      then
        (case (if is_epoched self then take_channels_epoched (data1 self) ci1
               else take_channels (data1 self) ci1) of
           Inl e \<Rightarrow> Inl (e, self)
         | Inr d1 \<Rightarrow>
            (case (if is_epoched self then take_channels_epoched (data2 self) ci2
                   else take_channels (data2 self) ci2) of
               Inl e \<Rightarrow> Inl (e, self\<lparr>data1 := d1\<rparr>)
             | Inr d2 \<Rightarrow>
                (case py_len ci1 of
                   Inl e \<Rightarrow> Inl (e, self\<lparr>data1 := d1, data2 := d2\<rparr>)
                 | Inr n \<Rightarrow> Inr (self\<lparr>data1 := d1, data2 := d2, n_chan := n, roi := PList [ci1, ci2]\<rparr>))))
      else Inr (self\<lparr>roi := PList [ci1, ci2]\<rparr>))"

definition roi_assign :: "hyperit \<Rightarrow> pyval list \<Rightarrow> (error \<times> hyperit) + hyperit" where
  "roi_assign self roi_list =
     (if verbose self \<and> soi_groups self = None then Inl (AttributeError, self)
      else if length roi_list \<noteq> 2 then Inl (ValueError Unpack, self)
      else
        (case convert_names_to_indices self (roi_list ! 0) 0 of
           Inl e \<Rightarrow> Inl (e, self)
         | Inr ci1 \<Rightarrow>
            (case convert_names_to_indices (self\<lparr>channel_indices1 := ci1\<rparr>) (roi_list ! 1) 1 of
               Inl e \<Rightarrow> Inl (e, self\<lparr>channel_indices1 := ci1\<rparr>)
             | Inr ci2 \<Rightarrow> roi_subset (self\<lparr>channel_indices1 := ci1, channel_indices2 := ci2\<rparr>) ci1 ci2)))"

definition roi_setter :: "hyperit \<Rightarrow> pyval list \<Rightarrow> (error \<times> hyperit) + hyperit" where
  "roi_setter self roi_list =
     (let s0 = self\<lparr>roi_specified := True\<rparr> in
      if list_all pointwise_half roi_list
      then roi_assign (s0\<lparr>scale_of_organisation := 1\<rparr>) roi_list
      else if list_all grouped_half roi_list
      then
        (if length roi_list < 2 then Inl (IndexError, s0)
         else
           let num_groups_x = length (items_of (roi_list ! 0));
               num_groups_y = length (items_of (roi_list ! 1))
           in if num_groups_x = num_groups_y
              then
                let s1 = s0\<lparr>soi_groups := Some num_groups_x\<rparr>;
                    gl = group_lengths roi_list
                in if length (remdups gl) = 1
                   then roi_assign (s1\<lparr>scale_of_organisation := hd gl,
                                       initialise_parameter := Some (Dims (hd gl) (hd gl))\<rparr>) roi_list
                   else Inl (ValueError ROICardinality, s1)
              else Inl (ValueError ROIGroupCount, s0))
      else Inl (ValueError ROINotRecognised, s0))"

text \<open>\<open>reset_roi\<close> (lines 186-195).\<close>

definition reset_roi :: "hyperit \<Rightarrow> error + hyperit" where
  "reset_roi self =
     ebind (py_getitem (channel_names self) 0) (\<lambda>side0.
     ebind (py_len side0) (\<lambda>l0.
     ebind (py_len (channel_names self)) (\<lambda>sides.
     ebind (if 1 < sides then ebind (py_getitem (channel_names self) 1) py_len else Inr l0) (\<lambda>l1.
       Inr (self\<lparr>roi_specified := False,
                 scale_of_organisation := 1,
                 channel_indices1 := arange l0,
                 channel_indices2 := arange l1,
                 roi := PList [arange l0, arange l1],
                 data1 := fst (all_data self),
                 data2 := snd (all_data self),
                 n_chan := l0\<rparr>)))))"

section \<open>Histogram estimator\<close>

text \<open>
  A float64 value: a finite number, an infinity or NaN. Finite values are idealised as
  reals, so rounding to 53 significant bits is not modelled; the range is. \<open>fl r\<close> is
  the float64 result of an operation whose exact result is \<open>r\<close>: an infinity from
  \<open>2^1024 - 2^970\<close> on, the midpoint between the largest float and \<open>2^1024\<close>; zero up to
  \<open>2^-1075\<close>, half the smallest subnormal; \<open>r\<close> itself in between.
\<close>

datatype npfloat = Finite real | PosInf | NegInf | NaN

definition overflow_threshold :: real where
  "overflow_threshold = 2 ^ 1024 - 2 ^ 970"

definition underflow_threshold :: real where
  "underflow_threshold = 1 / 2 ^ 1075"

definition fl :: "real \<Rightarrow> npfloat" where
  "fl r =
     (if overflow_threshold \<le> r then PosInf
      else if r \<le> - overflow_threshold then NegInf
      else if \<bar>r\<bar> \<le> underflow_threshold then Finite 0
      else Finite r)"

text \<open>
  Multiplication, division, addition and halving of float64 values. A numpy division by
  zero does not raise: it gives an infinity, or NaN for \<open>0 / 0\<close>. A zero is the
  positive zero: in \<open>calc_fd_bins\<close> no operand is negative.
\<close>

fun np_mul :: "npfloat \<Rightarrow> npfloat \<Rightarrow> npfloat" where
  "np_mul (Finite a) (Finite b) = fl (a * b)"
| "np_mul NaN y = NaN"
| "np_mul x NaN = NaN"
| "np_mul (Finite a) PosInf = (if a = 0 then NaN else if 0 < a then PosInf else NegInf)"
| "np_mul (Finite a) NegInf = (if a = 0 then NaN else if 0 < a then NegInf else PosInf)"
| "np_mul PosInf (Finite b) = (if b = 0 then NaN else if 0 < b then PosInf else NegInf)"
| "np_mul NegInf (Finite b) = (if b = 0 then NaN else if 0 < b then NegInf else PosInf)"
| "np_mul PosInf PosInf = PosInf"
| "np_mul PosInf NegInf = NegInf"
| "np_mul NegInf PosInf = NegInf"
| "np_mul NegInf NegInf = PosInf"

fun np_div :: "npfloat \<Rightarrow> npfloat \<Rightarrow> npfloat" where
  "np_div (Finite a) (Finite b) =
     (if b \<noteq> 0 then fl (a / b)
      else if 0 < a then PosInf
      else if a < 0 then NegInf
      else NaN)"
| "np_div NaN y = NaN"
| "np_div x NaN = NaN"
| "np_div (Finite a) PosInf = Finite 0"
| "np_div (Finite a) NegInf = Finite 0"
| "np_div PosInf (Finite b) = (if 0 \<le> b then PosInf else NegInf)"
| "np_div NegInf (Finite b) = (if 0 \<le> b then NegInf else PosInf)"
| "np_div PosInf PosInf = NaN"
| "np_div PosInf NegInf = NaN"
| "np_div NegInf PosInf = NaN"
| "np_div NegInf NegInf = NaN"

fun np_ceil :: "npfloat \<Rightarrow> npfloat" where
  "np_ceil (Finite r) = Finite (of_int \<lceil>r\<rceil>)"
| "np_ceil PosInf = PosInf"
| "np_ceil NegInf = NegInf"
| "np_ceil NaN = NaN"

fun np_add :: "npfloat \<Rightarrow> npfloat \<Rightarrow> npfloat" where
  "np_add (Finite a) (Finite b) = fl (a + b)"
| "np_add NaN y = NaN"
| "np_add x NaN = NaN"
| "np_add PosInf NegInf = NaN"
| "np_add NegInf PosInf = NaN"
| "np_add PosInf y = PosInf"
| "np_add x PosInf = PosInf"
| "np_add NegInf y = NegInf"
| "np_add x NegInf = NegInf"

fun np_half :: "npfloat \<Rightarrow> npfloat" where
  "np_half (Finite r) = fl (r / 2)"
| "np_half PosInf = PosInf"
| "np_half NegInf = NegInf"
| "np_half NaN = NaN"

text \<open>\<open>int(x)\<close>: truncation for a finite value, an exception otherwise.\<close>

fun np_int :: "npfloat \<Rightarrow> error + int" where
  "np_int (Finite r) = Inr (if 0 \<le> r then \<lfloor>r\<rfloor> else \<lceil>r\<rceil>)"
| "np_int PosInf = Inl OverflowError"
| "np_int NegInf = Inl OverflowError"
| "np_int NaN = Inl (ValueError NaNToInteger)"

text \<open>\<open>np.ptp\<close>: the range of a non-empty sequence, before rounding.\<close>

definition ptp :: "real list \<Rightarrow> real" where
  "ptp xs = Max (set xs) - Min (set xs)"

text \<open>
  \<open>np.percentile\<close> with its default linear interpolation, and \<open>scipy.stats.iqr\<close>,
  the difference of the 75th and 25th percentiles, before rounding. Both are library
  functions, written here as their documentation defines them.
\<close>

definition percentile :: "real list \<Rightarrow> real \<Rightarrow> real" where
  "percentile xs q =
     (let s = sort xs;
          h = real (length xs - 1) * q / 100;
          lo = nat \<lfloor>h\<rfloor>;
          hi = min (lo + 1) (length xs - 1)
      in s ! lo + (h - real lo) * (s ! hi - s ! lo))"

definition iqr :: "real list \<Rightarrow> real" where
  "iqr xs = (if xs = [] then 0 else percentile xs 75 - percentile xs 25)"

text \<open>
  \<open>calc_fd_bins\<close> (lines 334-341; the function of that name in the earlier module,
  lines 58-63, is the same code). \<open>np.ptp\<close> and \<open>stats.iqr\<close> reduce over the
  flattened array, \<open>len(X)\<close> is the length of its first axis; \<open>np.ptp\<close> raises on an
  array without elements and \<open>len\<close> on one without axes. \<open>fd_divisor\<close> is the
  denominator \<open>2.0 * stats.iqr(X) * len(X)**(-1/3)\<close> for the samples \<open>xs\<close> and the
  length \<open>n\<close>; the source divides by it without a test.
\<close>

definition fd_divisor :: "real list \<Rightarrow> nat \<Rightarrow> npfloat" where
  "fd_divisor xs n = np_mul (np_mul (Finite 2) (fl (iqr xs))) (Finite (real n powr (- 1 / 3)))"

definition fd_bins_of :: "ndarray \<Rightarrow> error + npfloat" where
  "fd_bins_of X =
     (if flat X = [] then Inl (ValueError EmptyReduction)
      else case X of
             Num r \<Rightarrow> Inl TypeError
           | Arr rows \<Rightarrow>
               Inr (np_ceil (np_div (fl (ptp (flat X))) (fd_divisor (flat X) (length rows)))))"

definition calc_fd_bins :: "ndarray \<Rightarrow> ndarray \<Rightarrow> error + int" where
  "calc_fd_bins X Y =
     ebind (fd_bins_of X) (\<lambda>fd_bins_X.
     ebind (fd_bins_of Y) (\<lambda>fd_bins_Y.
       np_int (np_ceil (np_half (np_add fd_bins_X fd_bins_Y)))))"

text \<open>
  \<open>np.histogram2d(X, Y, bins)\<close> for two one-dimensional sequences and an integer bin
  count: equal-width bins between the minimum and the maximum of each sequence, the last
  bin closed on the right.
\<close>

definition bin_edges :: "real list \<Rightarrow> nat \<Rightarrow> real list" where
  "bin_edges xs bins =
     (let lo = (if Min (set xs) = Max (set xs) then Min (set xs) - 1 / 2 else Min (set xs));
          hi = (if Min (set xs) = Max (set xs) then Max (set xs) + 1 / 2 else Max (set xs))
      in map (\<lambda>k. lo + real k * (hi - lo) / real bins) [0..<bins + 1])"

definition bin_of :: "real list \<Rightarrow> real \<Rightarrow> nat" where
  "bin_of edges v =
     (if v = last edges then length edges - 2
      else length (filter (\<lambda>e. e \<le> v) edges) - 1)"

definition histogram2d :: "real list \<Rightarrow> real list \<Rightarrow> int \<Rightarrow> error + real list list" where
  "histogram2d X Y bins =
     (if length X \<noteq> length Y then Inl (ValueError HistogramInput)
      else if bins \<le> 0 then Inl (ValueError HistogramInput)
      else
        let ex = bin_edges X (nat bins);
            ey = bin_edges Y (nat bins)
        in Inr (map (\<lambda>a. map (\<lambda>b.
                  real (length (filter (\<lambda>(x, y). bin_of ex x = a \<and> bin_of ey y = b) (zip X Y))))
                [0..<nat bins]) [0..<nat bins]))"

text \<open>\<open>np.finfo(float).eps\<close> and \<open>-np.sum(p * np.log2(p + eps))\<close>.\<close>

definition eps :: real where
  "eps = 1 / 2 ^ 52"

definition entropy :: "real list \<Rightarrow> real" where
  "entropy ps = - sum_list (map (\<lambda>p. p * log 2 (p + eps)) ps)"

text \<open>
  The part of the epoch loop of \<open>__mi_hist\<close> after the histogram (lines 350-361).
  Sums, products and logarithms are those of the reals: the rounding of \<open>np.sum\<close>,
  which depends on the order of the summands, is not modelled.
\<close>

definition hist_mi :: "real list list \<Rightarrow> real" where
  "hist_mi j_hist =
     (let total = sum_list (map sum_list j_hist);
          pxy = map (map (\<lambda>c. c / total)) j_hist;
          px = map sum_list pxy;
          py = map (\<lambda>b. sum_list (map (\<lambda>row. row ! b) pxy)) [0..<length pxy];
          Hx = entropy px;
          Hy = entropy py;
          Hxy = entropy (concat pxy)
      in Hx + Hy - Hxy)"

text \<open>
  The body of the epoch loop (lines 349-361). The bin count is computed first, on
  arrays of any shape; \<open>np.histogram2d\<close> then raises \<open>ValueError\<close> unless both
  arrays are one-dimensional, as it does on the two-dimensional slices of a grouped ROI.
\<close>

definition mi_hist_epoch :: "ndarray \<Rightarrow> ndarray \<Rightarrow> error + real" where
  "mi_hist_epoch X Y =
     ebind (calc_fd_bins X Y) (\<lambda>bins.
       case (vec X, vec Y) of
         (Some xs, Some ys) \<Rightarrow> ebind (histogram2d xs ys bins) (\<lambda>j_hist. Inr (hist_mi j_hist))
       | (Some xs, None) \<Rightarrow> Inl (ValueError HistogramInput)
       | (None, other) \<Rightarrow> Inl (ValueError HistogramInput))"

text \<open>\<open>s[epo_i, :]\<close>: the row must itself be an array.\<close>

definition epoch_row :: "ndarray \<Rightarrow> nat \<Rightarrow> error + ndarray" where
  "epoch_row s k =
     ebind (axis0 s) (\<lambda>rows.
     ebind (nth_err rows k) (\<lambda>r. case r of Arr xs \<Rightarrow> Inr r | Num x \<Rightarrow> Inl IndexError))"

text \<open>\<open>X, Y = (s1[epo_i, :], s2[epo_i, :]) if self._is_epoched else (s1, s2)\<close>.\<close>

definition epoch_pair :: "hyperit \<Rightarrow> ndarray \<Rightarrow> ndarray \<Rightarrow> nat \<Rightarrow> error + ndarray \<times> ndarray" where
  "epoch_pair self s1 s2 epo_i =
     (if is_epoched self
      then ebind (epoch_row s1 epo_i) (\<lambda>X. ebind (epoch_row s2 epo_i) (\<lambda>Y. Inr (X, Y)))
      else Inr (s1, s2))"

text \<open>\<open>__mi_hist\<close> (lines 331-365): one row \<open>[result]\<close> per epoch.\<close>

definition mi_hist :: "hyperit \<Rightarrow> ndarray \<Rightarrow> ndarray \<Rightarrow> error + real list list" where
  "mi_hist self s1 s2 =
     map_err (\<lambda>epo_i.
       ebind (epoch_pair self s1 s2 epo_i) (\<lambda>(X, Y).
       ebind (mi_hist_epoch X Y) (\<lambda>result. Inr [result])))
     [0..<n_epo self]"

section \<open>Symbolic estimator\<close>

text \<open>
  \<open>symb_symbolise\<close> (lines 374-378): the windows \<open>X[k], X[k+l], ..., X[k+(m-1)l]\<close>,
  one per start \<open>k\<close>; \<open>np.empty\<close> raises for a negative window count.
\<close>

definition symb_symbolise :: "real list \<Rightarrow> nat \<Rightarrow> nat \<Rightarrow> error + real list list" where
  "symb_symbolise X l m =
     (let width = int (length X) - (int m - 1) * int l
      in if width < 0 then Inl (ValueError NegativeDimensions)
         else Inr (map (\<lambda>k. map (\<lambda>i. X ! (i * l + k)) [0..<m]) [0..<nat width]))"

text \<open>
  \<open>argsort\<close> of one window. For windows this short numpy's quicksort is an insertion
  sort, which keeps equal samples in their order.
\<close>

definition argsort :: "real list \<Rightarrow> nat list" where
  "argsort w = sort_key (\<lambda>i. w ! i) [0..<length w]"

text \<open>\<open>(np.multiply(X, symbol_weights)).sum(1)\<close> with \<open>symbol_weights = m ** arange(m)\<close>.\<close>

definition symbol_hash :: "nat \<Rightarrow> nat list \<Rightarrow> nat" where
  "symbol_hash m ranks = sum_list (map (\<lambda>(r, i). r * m ^ i) (zip ranks [0..<m]))"

text \<open>
  The sequence that \<open>symb_symbolise\<close> reads from an array. A one-dimensional array is
  read as it is, and \<open>len\<close> raises on an array without axes. On an array of more
  dimensions the assignment \<open>Y[i] = X[i * l:i * l + Y.shape[1]]\<close> puts a block of
  rows where a row of numbers is expected: numpy accepts it only when the block is a
  single number, that is for one window over rows of one sample each, which is then
  the window over those samples. With \<open>m = 0\<close> nothing is assigned and only the
  length of the array matters.
\<close>

definition symb_input :: "ndarray \<Rightarrow> nat \<Rightarrow> nat \<Rightarrow> error + real list" where
  "symb_input X l m =
     (case X of
        Num r \<Rightarrow> Inl TypeError
      | Arr rows \<Rightarrow>
          (case vec X of
             Some xs \<Rightarrow> Inr xs
           | None \<Rightarrow>
               if int (length rows) - (int m - 1) * int l < 0 then Inl (ValueError NegativeDimensions)
               else if m = 0 then Inr (replicate (length rows) 0)
               else if int (length rows) - (int m - 1) * int l = 1
                      \<and> list_all (\<lambda>r. length (flat r) = 1) rows
               then Inr (flat X)
               else Inl (ValueError Broadcast)))"

definition symbol_hashes :: "ndarray \<Rightarrow> nat \<Rightarrow> nat \<Rightarrow> error + nat list" where
  "symbol_hashes X l m =
     ebind (symb_input X l m) (\<lambda>xs.
     ebind (symb_symbolise xs l m) (\<lambda>windows. Inr (map (\<lambda>w. symbol_hash m (argsort w)) windows)))"

text \<open>\<open>str(n)\<close> for a non-negative integer.\<close>

fun str_nat :: "nat \<Rightarrow> string" where
  "str_nat n =
     (if n < 10 then [char_of (48 + n)]
      else str_nat (n div 10) @ [char_of (48 + n mod 10)])"

declare str_nat.simps [simp del]

text \<open>
  A Python dictionary of counts, in insertion order.
  \<open>dict_[key] = dict_.get(key, 0) + 1\<close> is \<open>dict_incr\<close>.
\<close>

type_synonym counts = "(string \<times> nat) list"

definition dict_incr :: "counts \<Rightarrow> string \<Rightarrow> counts" where
  "dict_incr d key =
     (case map_of d key of
        None \<Rightarrow> d @ [(key, 1)]
      | Some c \<Rightarrow> map (\<lambda>(k, v). if k = key then (k, v + 1) else (k, v)) d)"

text \<open>The body of the counting loop (lines 400-404), for one index \<open>i\<close>.\<close>

definition count_step ::
  "nat list \<Rightarrow> nat list \<Rightarrow> nat \<Rightarrow> counts \<times> counts \<times> counts \<Rightarrow> error + counts \<times> counts \<times> counts" where
  "count_step hX hY i acc =
     (case acc of (p_xy, p_x, p_y) \<Rightarrow>
        ebind (nth_err hX i) (\<lambda>a.
        ebind (nth_err hY i) (\<lambda>b.
          Inr (dict_incr p_xy (str_nat a @ '','' @ str_nat b),
               dict_incr p_x (str_nat a),
               dict_incr p_y (str_nat b)))))"

text \<open>\<open>for i in range(len(symbol_hash_X)-1)\<close>, from three empty dictionaries.\<close>

definition count_loop :: "nat list \<Rightarrow> nat list \<Rightarrow> error + counts \<times> counts \<times> counts" where
  "count_loop hX hY = for_each (count_step hX hY) [0..<length hX - 1] ([], [], [])"

text \<open>\<open>symb_normalise_counts\<close> followed by \<open>np.array(list(....values()))\<close>.\<close>

definition symb_normalise_counts :: "counts \<Rightarrow> real list" where
  "symb_normalise_counts d = map (\<lambda>(k, v). real v / real (sum_list (map snd d))) d"

definition mi_symb_epoch :: "ndarray \<Rightarrow> ndarray \<Rightarrow> nat \<Rightarrow> nat \<Rightarrow> error + real" where
  "mi_symb_epoch X Y l m =
     ebind (symbol_hashes X l m) (\<lambda>symbol_hash_X.
     ebind (symbol_hashes Y l m) (\<lambda>symbol_hash_Y.
     ebind (count_loop symbol_hash_X symbol_hash_Y) (\<lambda>(p_xy, p_x, p_y).
       Inr (entropy (symb_normalise_counts p_x) + entropy (symb_normalise_counts p_y)
            - entropy (symb_normalise_counts p_xy)))))"

text \<open>\<open>__mi_symb\<close> (lines 368-415): one row \<open>[result]\<close> per epoch.\<close>

definition mi_symb :: "hyperit \<Rightarrow> ndarray \<Rightarrow> ndarray \<Rightarrow> nat \<Rightarrow> nat \<Rightarrow> error + real list list" where
  "mi_symb self s1 s2 l m =
     map_err (\<lambda>epo_i.
       ebind (epoch_pair self s1 s2 epo_i) (\<lambda>(X, Y).
       ebind (mi_symb_epoch X Y l m) (\<lambda>result. Inr [result])))
     [0..<n_epo self]"

section \<open>Estimator dispatch and the external calculators\<close>

text \<open>
  The JIDT calculator classes that \<open>__which_mi_estimator\<close> and
  \<open>__which_te_estimator\<close> instantiate.
\<close>

datatype calculator =
    MI_Kraskov1 | MI_Kraskov2 | MI_Kernel | MI_Gaussian
  | TE_Kraskov | TE_Kernel | TE_Gaussian | TE_Symbolic

text \<open>
  The native calculators are external: the model takes them as a parameter. They are
  stateful and their permutation test is random, so each call also receives the number
  of the \<open>__estimate_it\<close> invocation and the epoch it is made for; nothing is assumed
  about two calls returning the same value. The keyword parameters of a computation
  only set properties of the calculator and are part of this parameter, except the
  permutation count, which is passed on.
\<close>

record jidt =
  compute_average_local ::
    "calculator \<Rightarrow> init_param option \<Rightarrow> nat \<Rightarrow> nat \<Rightarrow> ndarray \<Rightarrow> ndarray \<Rightarrow> error + real"
  compute_significance ::
    "calculator \<Rightarrow> init_param option \<Rightarrow> nat \<Rightarrow> nat \<Rightarrow> ndarray \<Rightarrow> ndarray \<Rightarrow> nat
       \<Rightarrow> error + real \<times> real \<times> real"

text \<open>\<open>str.lower\<close> on ASCII.\<close>

definition lower_char :: "char \<Rightarrow> char" where
  "lower_char c =
     (if 65 \<le> (of_char c :: nat) \<and> (of_char c :: nat) \<le> 90 then char_of ((of_char c :: nat) + 32) else c)"

definition lower :: "string \<Rightarrow> string" where
  "lower s = map lower_char s"

text \<open>
  \<open>__which_mi_estimator\<close> (lines 419-457): the calculator, if the estimator uses one,
  and the value of \<open>self.calc_sigstats\<close> afterwards.
\<close>

definition which_mi_estimator :: "string \<Rightarrow> bool \<Rightarrow> error + calculator option \<times> bool" where
  "which_mi_estimator estimator_type calc_sigstats =
     (if estimator_type = ''histogram'' then Inr (None, False)
      else if estimator_type = ''ksg1'' \<or> estimator_type = ''ksg'' then Inr (Some MI_Kraskov1, calc_sigstats)
      else if estimator_type = ''ksg2'' then Inr (Some MI_Kraskov2, calc_sigstats)
      else if estimator_type = ''kernel'' then Inr (Some MI_Kernel, calc_sigstats)
      else if estimator_type = ''gaussian'' then Inr (Some MI_Gaussian, calc_sigstats)
      else if estimator_type = ''symbolic'' then Inr (None, False)
      else Inl (ValueError EstimatorNotSupported))"

text \<open>
  \<open>__which_te_estimator\<close> (lines 460-497): the calculator and the object, whose
  \<open>_initialise_parameter\<close> the symbolic estimator sets to the integer \<open>(2)\<close>.
\<close>

definition which_te_estimator :: "hyperit \<Rightarrow> string \<Rightarrow> error + calculator \<times> hyperit" where
  "which_te_estimator self estimator_type =
     (if estimator_type = ''ksg'' \<or> estimator_type = ''ksg1'' \<or> estimator_type = ''ksg2''
      then Inr (TE_Kraskov, self)
      else if estimator_type = ''kernel'' then Inr (TE_Kernel, self)
      else if estimator_type = ''gaussian'' then Inr (TE_Gaussian, self)
      else if estimator_type = ''symbolic''
      then Inr (TE_Symbolic, self\<lparr>initialise_parameter := Some (Base 2)\<rparr>)
      else Inl (ValueError EstimatorNotSupported))"

text \<open>\<open>X.T\<close> for the two-dimensional slice of a grouped ROI; a vector is its own transpose.\<close>

fun is_arr :: "ndarray \<Rightarrow> bool" where
  "is_arr (Arr xs) = True"
| "is_arr (Num r) = False"

fun sub_arrays :: "ndarray \<Rightarrow> ndarray list" where
  "sub_arrays (Arr xs) = xs"
| "sub_arrays (Num r) = []"

fun nd_T :: "ndarray \<Rightarrow> ndarray" where
  "nd_T (Num r) = Num r"
| "nd_T (Arr rows) =
     (if rows \<noteq> [] \<and> list_all is_arr rows
      then Arr (map Arr (transpose (map sub_arrays rows)))
      else Arr rows)"

text \<open>\<open>s[epo_i, ...]\<close>.\<close>

definition epoch_of :: "ndarray \<Rightarrow> nat \<Rightarrow> error + ndarray" where
  "epoch_of s k = ebind (axis0 s) (\<lambda>rows. nth_err rows k)"

text \<open>
  \<open>__estimate_it\<close> (lines 501-525): one row of four statistics per epoch.
  \<open>run_calculator\<close> is the use of the calculator once it is initialised (lines
  516-523). \<open>initialise(*self._initialise_parameter)\<close> cannot unpack the integer that
  the symbolic transfer-entropy estimator stores; a parameter that is not truthy means
  \<open>initialise()\<close> without arguments.
\<close>

definition run_calculator ::
  "jidt \<Rightarrow> calculator \<Rightarrow> init_param option \<Rightarrow> bool \<Rightarrow> nat \<Rightarrow> nat \<Rightarrow> nat \<Rightarrow> ndarray \<Rightarrow> ndarray
     \<Rightarrow> error + real list" where
  "run_calculator J calc ip calc_sigstats perm c epo_i X Y =
     ebind (compute_average_local J calc ip c epo_i X Y) (\<lambda>r.
       if calc_sigstats
       then ebind (compute_significance J calc ip c epo_i X Y perm) (\<lambda>(mu, sd, pv).
              Inr [r * ln 2, mu, sd, pv])
       else Inr [r * ln 2, 0, 0, 0])"

definition estimate_epoch ::
  "jidt \<Rightarrow> calculator \<Rightarrow> hyperit \<Rightarrow> bool \<Rightarrow> nat \<Rightarrow> nat \<Rightarrow> ndarray \<Rightarrow> ndarray \<Rightarrow> nat \<Rightarrow> error + real list" where
  "estimate_epoch J calc self calc_sigstats perm c s1 s2 epo_i =
     ebind (if is_epoched self
            then ebind (epoch_of s1 epo_i) (\<lambda>X. ebind (epoch_of s2 epo_i) (\<lambda>Y. Inr (X, Y)))
            else Inr (s1, s2)) (\<lambda>(X0, Y0).
       let X = (if 1 < scale_of_organisation self then nd_T X0 else X0);
           Y = (if 1 < scale_of_organisation self then nd_T Y0 else Y0)
       in case initialise_parameter self of
            Some (Base b) \<Rightarrow>
              (if b \<noteq> 0 then Inl TypeError
               else run_calculator J calc None calc_sigstats perm c epo_i X Y)
          | other \<Rightarrow> run_calculator J calc other calc_sigstats perm c epo_i X Y)"

definition estimate_it ::
  "jidt \<Rightarrow> calculator \<Rightarrow> hyperit \<Rightarrow> bool \<Rightarrow> nat \<Rightarrow> nat \<Rightarrow> ndarray \<Rightarrow> ndarray \<Rightarrow> error + real list list" where
  "estimate_it J calc self calc_sigstats perm c s1 s2 =
     map_err (estimate_epoch J calc self calc_sigstats perm c s1 s2) [0..<n_epo self]"

section \<open>Matrix assembly\<close>

text \<open>
  A result tensor, indexed \<open>[source unit][target unit][epoch][statistic]\<close>; a cell is
  the \<open>(n_epo, statistics)\<close> block of one pair.
\<close>

type_synonym cell = "real list list"
type_synonym tensor = "cell list list"

definition zeros :: "nat \<Rightarrow> nat \<Rightarrow> nat \<Rightarrow> nat \<Rightarrow> tensor" where
  "zeros a b e k = replicate a (replicate b (replicate e (replicate k 0)))"

text \<open>\<open>M[i, j] = v\<close> and \<open>M[i, j]\<close>; in every assignment of the source the block has the shape of the cell.\<close>

definition tensor_set :: "tensor \<Rightarrow> nat \<Rightarrow> nat \<Rightarrow> cell \<Rightarrow> error + tensor" where
  "tensor_set M i j v =
     (if i < length M \<and> j < length (M ! i) then Inr (M[i := (M ! i)[j := v]]) else Inl IndexError)"

definition tensor_get :: "tensor \<Rightarrow> nat \<Rightarrow> nat \<Rightarrow> error + cell" where
  "tensor_get M i j =
     (if i < length M \<and> j < length (M ! i) then Inr (M ! i ! j) else Inl IndexError)"

text \<open>Reading \<open>self._soi_groups\<close>, an attribute that exists only after a grouped ROI.\<close>

definition get_soi_groups :: "hyperit \<Rightarrow> error + nat" where
  "get_soi_groups self = (case soi_groups self of None \<Rightarrow> Inl AttributeError | Some g \<Rightarrow> Inr g)"

text \<open>The allocation of \<open>self.mi_matrix\<close> (lines 702-706).\<close>

definition mi_alloc :: "hyperit \<Rightarrow> string \<Rightarrow> error + tensor" where
  "mi_alloc self estimator_type =
     (if estimator_type = ''histogram'' \<or> estimator_type = ''symbolic''
      then Inr (zeros (n_chan self) (n_chan self) (n_epo self) 1)
      else if scale_of_organisation self = 1
      then Inr (zeros (n_chan self) (n_chan self) (n_epo self) 4)
      else ebind (get_soi_groups self) (\<lambda>g. Inr (zeros g g (n_epo self) 4)))"

text \<open>The allocation of each transfer-entropy matrix (line 768).\<close>

definition te_alloc :: "hyperit \<Rightarrow> error + tensor" where
  "te_alloc self =
     (if scale_of_organisation self = 1
      then Inr (zeros (n_chan self) (n_chan self) (n_epo self) 4)
      else ebind (get_soi_groups self) (\<lambda>g. Inr (zeros g g (n_epo self) 4)))"

text \<open>\<open>loop_range\<close> (lines 711 and 770).\<close>

definition loop_range :: "hyperit \<Rightarrow> error + nat" where
  "loop_range self =
     (if scale_of_organisation self = 1 then Inr (n_chan self) else get_soi_groups self)"

text \<open>
  The pair of slices \<open>s1, s2\<close> for units \<open>i\<close> and \<open>j\<close> (lines 718-722 and 777-781).
  With a scale of 0 neither branch assigns them.
\<close>

definition group_of :: "hyperit \<Rightarrow> nat \<Rightarrow> nat \<Rightarrow> error + pyval" where
  "group_of self side i = ebind (py_getitem (roi self) side) (\<lambda>half. py_getitem half i)"

definition slices :: "hyperit \<Rightarrow> nat \<Rightarrow> nat \<Rightarrow> error + ndarray \<times> ndarray" where
  "slices self i j =
     (if scale_of_organisation self = 1
      then (if is_epoched self
            then ebind (channel_epoched (data1 self) i) (\<lambda>s1.
                 ebind (channel_epoched (data2 self) j) (\<lambda>s2. Inr (s1, s2)))
            else ebind (channel (data1 self) i) (\<lambda>s1.
                 ebind (channel (data2 self) j) (\<lambda>s2. Inr (s1, s2))))
      else if 1 < scale_of_organisation self
      then (if is_epoched self
            then ebind (group_of self 0 i) (\<lambda>g1.
                 ebind (take_channels_epoched (data1 self) g1) (\<lambda>s1.
                 ebind (group_of self 1 j) (\<lambda>g2.
                 ebind (take_channels_epoched (data2 self) g2) (\<lambda>s2. Inr (s1, s2)))))
            else ebind (group_of self 0 i) (\<lambda>g1.
                 ebind (take_channels (data1 self) g1) (\<lambda>s1.
                 ebind (group_of self 1 j) (\<lambda>g2.
                 ebind (take_channels (data2 self) g2) (\<lambda>s2. Inr (s1, s2))))))
      else Inl UnboundLocalError)"

text \<open>
  The body of the double loop of \<open>compute_mi\<close> (lines 716-732). The loop state is the
  number of pair estimates made so far and the matrix.
\<close>

definition mi_pair ::
  "jidt \<Rightarrow> hyperit \<Rightarrow> string \<Rightarrow> calculator option \<Rightarrow> bool \<Rightarrow> nat \<Rightarrow> nat \<Rightarrow> nat
     \<Rightarrow> nat \<times> tensor \<Rightarrow> error + nat \<times> tensor" where
  "mi_pair J self estimator_type calc calc_sigstats perm i j st =
     (case st of (c, M) \<Rightarrow>
        if inter_brain self \<or> i \<noteq> j
        then
          ebind (slices self i j) (\<lambda>(s1, s2).
          ebind (if estimator_type = ''histogram'' then mi_hist self s1 s2
                 else if estimator_type = ''symbolic'' then mi_symb self s1 s2 1 3
                 else (case calc of
                         Some k \<Rightarrow> estimate_it J k self calc_sigstats perm c s1 s2
                       | None \<Rightarrow> Inl AttributeError)) (\<lambda>v.
          ebind (tensor_set M i j v) (\<lambda>M1.
            if \<not> inter_brain self
            then ebind (tensor_get M1 i j) (\<lambda>w.
                 ebind (tensor_set M1 j i w) (\<lambda>M2. Inr (Suc c, M2)))
            else Inr (Suc c, M1))))
        else Inr (c, M))"

text \<open>
  \<open>compute_mi\<close> (lines 677-740) without visualisation; \<open>perm\<close> is
  \<open>stat_sig_perm_num\<close>.
\<close>

definition compute_mi :: "jidt \<Rightarrow> hyperit \<Rightarrow> string \<Rightarrow> bool \<Rightarrow> nat \<Rightarrow> error + tensor" where
  "compute_mi J self estimator_type calc_sigstats perm =
     ebind (which_mi_estimator (lower estimator_type) calc_sigstats) (\<lambda>(calc, sigstats).
     ebind (mi_alloc self (lower estimator_type)) (\<lambda>M0.
     ebind (loop_range self) (\<lambda>n.
     ebind (for_each (\<lambda>i. for_each (mi_pair J self (lower estimator_type) calc sigstats perm i) [0..<n])
              [0..<n] (0, M0)) (\<lambda>(c, M). Inr M))))"

text \<open>The body of the double loop of \<open>compute_te\<close> (lines 775-787).\<close>

definition te_pair ::
  "jidt \<Rightarrow> hyperit \<Rightarrow> calculator \<Rightarrow> bool \<Rightarrow> nat \<Rightarrow> nat \<Rightarrow> nat
     \<Rightarrow> nat \<times> tensor \<times> tensor \<Rightarrow> error + nat \<times> tensor \<times> tensor" where
  "te_pair J self calc calc_sigstats perm i j st =
     (case st of (c, xy, yx) \<Rightarrow>
        if inter_brain self \<or> i \<noteq> j
        then
          ebind (slices self i j) (\<lambda>(s1, s2).
          ebind (estimate_it J calc self calc_sigstats perm c s1 s2) (\<lambda>v.
          ebind (tensor_set xy i j v) (\<lambda>xy1.
            if inter_brain self
            then ebind (estimate_it J calc self calc_sigstats perm (Suc c) s2 s1) (\<lambda>w.
                 ebind (tensor_set yx i j w) (\<lambda>yx1. Inr (Suc (Suc c), xy1, yx1)))
            else Inr (Suc c, xy1, yx))))
        else Inr (c, xy, yx))"

text \<open>
  \<open>compute_te\<close> (lines 742-799) without visualisation: the two matrices
  \<open>(te_xy, te_yx)\<close>. \<open>te_self\<close> is the object as the estimator choice leaves it.
\<close>

definition compute_te :: "jidt \<Rightarrow> hyperit \<Rightarrow> string \<Rightarrow> bool \<Rightarrow> nat \<Rightarrow> error + tensor \<times> tensor" where
  "compute_te J self estimator_type calc_sigstats perm =
     ebind (which_te_estimator self (lower estimator_type)) (\<lambda>(calc, self1).
     ebind (te_alloc self1) (\<lambda>xy0.
     ebind (te_alloc self1) (\<lambda>yx0.
     ebind (loop_range self1) (\<lambda>n.
     ebind (for_each (\<lambda>i. for_each (te_pair J self1 calc calc_sigstats perm i) [0..<n])
              [0..<n] (0, xy0, yx0)) (\<lambda>(c, xy, yx). Inr (xy, yx))))))"

definition te_self :: "hyperit \<Rightarrow> string \<Rightarrow> hyperit" where
  "te_self self estimator_type =
     (case which_te_estimator self (lower estimator_type) of
        Inl e \<Rightarrow> self
      | Inr (calc, self1) \<Rightarrow> self1)"

section \<open>Transfer entropy in the earlier module\<close>

text \<open>
  \<open>compute_te\<close> of src/IT-Hyperscanning/it.py (lines 607-662), a function of two
  arrays rather than a method; the second array is optional. \<open>check_eeg_data\<close> (lines
  44-56) reads \<open>data[0].shape[0]\<close> and \<open>data[1].shape[0]\<close> before it tests the
  number of dimensions. The parameter \<open>epoched\<close> is \<open>is_epoched\<close> and
  \<open>is_inter\<close> is the local \<open>inter_brain\<close>.
\<close>

definition shape_at :: "ndarray \<Rightarrow> nat \<Rightarrow> error + nat" where
  "shape_at a k = nth_err (shape a) k"

definition check_eeg_data :: "ndarray \<Rightarrow> bool \<Rightarrow> error + ndarray" where
  "check_eeg_data data epoched =
     ebind (axis0 data) (\<lambda>rows.
     ebind (nth_err rows 0) (\<lambda>d0.
     ebind (shape_at d0 0) (\<lambda>n0.
     ebind (nth_err rows 1) (\<lambda>d1.
     ebind (shape_at d1 0) (\<lambda>n1.
       if n0 \<noteq> n1 then Inl AssertionError
       else if ndim data = 3 \<and> \<not> epoched then Inl (ValueError UnepochedDimensions)
       else if 3 < ndim data then Inl (ValueError DataDimensions)
       else Inr data)))))"

text \<open>
  The estimator functions \<open>te_ksg\<close>, \<open>te_kernel\<close>, \<open>te_gaussian\<close> and
  \<open>te_symbolic\<close> wrap the external calculators and return one number for a pair of
  slices. The model takes them as a parameter; each call also receives the number of
  the call, and the keyword arguments, which \<open>compute_te\<close> only passes on, are part
  of the parameter. \<open>te_estimation_methods\<close> is the dictionary of lines 630-635.
\<close>

type_synonym te_function = "nat \<Rightarrow> ndarray \<Rightarrow> ndarray \<Rightarrow> bool \<Rightarrow> error + real"

record te_functions =
  te_ksg :: te_function
  te_kernel :: te_function
  te_gaussian :: te_function
  te_symbolic :: te_function

definition te_estimation_methods :: "te_functions \<Rightarrow> string \<Rightarrow> te_function option" where
  "te_estimation_methods F mode =
     (if mode = ''ksg'' then Some (te_ksg F)
      else if mode = ''kernel'' then Some (te_kernel F)
      else if mode = ''gaussian'' then Some (te_gaussian F)
      else if mode = ''symbolic'' then Some (te_symbolic F)
      else None)"

text \<open>A two-dimensional matrix of numbers, \<open>np.zeros((n, n))\<close> and \<open>M[i, j] = v\<close>.\<close>

type_synonym matrix = "real list list"

definition zeros2 :: "nat \<Rightarrow> nat \<Rightarrow> matrix" where
  "zeros2 a b = replicate a (replicate b 0)"

definition matrix_set :: "matrix \<Rightarrow> nat \<Rightarrow> nat \<Rightarrow> real \<Rightarrow> error + matrix" where
  "matrix_set M i j v =
     (if i < length M \<and> j < length (M ! i) then Inr (M[i := (M ! i)[j := v]]) else Inl IndexError)"

text \<open>
  The slices \<open>s1, s2\<close> of line 651. \<open>check_eeg_data\<close> does not tie the number of
  dimensions to \<open>is_epoched\<close>, so the index \<open>[:, i, :]\<close> can meet an array of two
  dimensions, on which numpy raises \<open>IndexError\<close>.
\<close>

definition legacy_channel :: "ndarray \<Rightarrow> bool \<Rightarrow> nat \<Rightarrow> error + ndarray" where
  "legacy_channel a epoched i =
     (if epoched
      then (if ndim a < 3 then Inl IndexError else channel_epoched a i)
      else (if ndim a < 2 then Inl IndexError else channel a i))"

definition legacy_slices :: "ndarray \<Rightarrow> ndarray \<Rightarrow> bool \<Rightarrow> nat \<Rightarrow> nat \<Rightarrow> error + ndarray \<times> ndarray" where
  "legacy_slices signal1 signal2 epoched i j =
     ebind (legacy_channel signal1 epoched i) (\<lambda>s1.
     ebind (legacy_channel signal2 epoched j) (\<lambda>s2. Inr (s1, s2)))"

text \<open>
  The body of the double loop (lines 650-656); the loop state is the number of calls of
  the estimator function so far and the two matrices.
\<close>

definition legacy_te_pair ::
  "te_function \<Rightarrow> ndarray \<Rightarrow> ndarray \<Rightarrow> bool \<Rightarrow> bool \<Rightarrow> nat \<Rightarrow> nat
     \<Rightarrow> nat \<times> matrix \<times> matrix \<Rightarrow> error + nat \<times> matrix \<times> matrix" where
  "legacy_te_pair te_func signal1 signal2 epoched is_inter i j st =
     (case st of (c, xy, yx) \<Rightarrow>
        if is_inter \<or> i \<noteq> j
        then
          ebind (legacy_slices signal1 signal2 epoched i j) (\<lambda>(s1, s2).
          ebind (te_func c s1 s2 epoched) (\<lambda>v.
          ebind (matrix_set xy i j v) (\<lambda>xy1.
            if is_inter
            then ebind (te_func (Suc c) s2 s1 epoched) (\<lambda>w.
                 ebind (matrix_set yx i j w) (\<lambda>yx1. Inr (Suc (Suc c), xy1, yx1)))
            else Inr (Suc c, xy1, yx))))
        else Inr (c, xy, yx))"

text \<open>
  What the function returns (lines 659-662): the pair of matrices when a second array
  was passed, the first matrix alone otherwise.
\<close>

datatype te_result = One_Matrix matrix | Two_Matrices matrix matrix

definition legacy_compute_te ::
  "te_functions \<Rightarrow> ndarray \<Rightarrow> ndarray option \<Rightarrow> bool \<Rightarrow> string \<Rightarrow> error + te_result" where
  "legacy_compute_te F eeg_1 eeg_2 epoched mode =
     (let is_inter = (eeg_2 \<noteq> None) in
      ebind (check_eeg_data eeg_1 epoched) (\<lambda>signal1.
      ebind (case eeg_2 of Some e2 \<Rightarrow> check_eeg_data e2 epoched | None \<Rightarrow> Inr signal1) (\<lambda>signal2.
      ebind (shape_at signal1 (if epoched then 1 else 0)) (\<lambda>n_chan.
        case te_estimation_methods F mode of
          None \<Rightarrow> Inl (ValueError EstimatorNotSupported)
        | Some te_func \<Rightarrow>
            ebind (for_each (\<lambda>i. for_each (legacy_te_pair te_func signal1 signal2 epoched is_inter i)
                                [0..<n_chan])
                     [0..<n_chan] (0, zeros2 n_chan n_chan, zeros2 n_chan n_chan)) (\<lambda>(c, xy, yx).
              Inr (if is_inter then Two_Matrices xy yx else One_Matrix xy))))))"

section \<open>Example objects\<close>

text \<open>
  Two channels, three samples, unepoched. The same array on both sides gives an
  intra-brain object; \<open>init_example_intra\<close> below shows that the constructor builds it.
\<close>

definition example_names :: pyval where
  "example_names = PList [PList [PStr ''C1'', PStr ''C2''], PList [PStr ''C1'', PStr ''C2'']]"

definition example_data :: ndarray where
  "example_data = Arr [Arr [Num 1, Num 2, Num 4], Arr [Num 3, Num 1, Num 2]]"

definition example_data2 :: ndarray where
  "example_data2 = Arr [Arr [Num 0, Num 5, Num 1], Arr [Num 2, Num 2, Num 7]]"

text \<open>A calculator whose answer depends on the invocation, as a stateful or random one may.\<close>

definition example_jidt :: jidt where
  "example_jidt = \<lparr>compute_average_local = (\<lambda>calc ip c e X Y. Inr (real c + 1)),
                   compute_significance = (\<lambda>calc ip c e X Y perm. Inr (0, 1, 1 / 2))\<rparr>"

definition example_intra :: hyperit where
  "example_intra = \<lparr>channel_names = PList [example_names, example_names],
                 channel_indices1 = PList [PInt 0, PInt 1],
                 channel_indices2 = PList [PInt 0, PInt 1],
                 all_data = (example_data, example_data),
                 data1 = example_data,
                 data2 = example_data,
                 roi = PList [],
                 roi_specified = False,
                 scale_of_organisation = 1,
                 soi_groups = None,
                 inter_brain = False,
                 is_epoched = False,
                 initialise_parameter = None,
                 verbose = False,
                 n_epo = 1,
                 n_chan = 2,
                 n_samples = 3\<rparr>"

definition example_inter :: hyperit where
  "example_inter = \<lparr>channel_names = example_names,
                 channel_indices1 = PList [PInt 0, PInt 1],
                 channel_indices2 = PList [PInt 0, PInt 1],
                 all_data = (example_data, example_data2),
                 data1 = example_data,
                 data2 = example_data2,
                 roi = PList [],
                 roi_specified = False,
                 scale_of_organisation = 1,
                 soi_groups = None,
                 inter_brain = True,
                 is_epoched = False,
                 initialise_parameter = None,
                 verbose = False,
                 n_epo = 1,
                 n_chan = 2,
                 n_samples = 3\<rparr>"

text \<open>
  The intra-brain example after the grouped ROI \<open>[[[0, 1]], [[0, 1]]]\<close>: one group of
  two channels on each side (\<open>roi_setter_example_grouped\<close> below).
\<close>

definition example_grouped :: hyperit where
  "example_grouped = example_intra
     \<lparr>channel_indices1 := PList [PList [PInt 0, PInt 1]],
      channel_indices2 := PList [PList [PInt 0, PInt 1]],
      roi := PList [PList [PList [PInt 0, PInt 1]], PList [PList [PInt 0, PInt 1]]],
      roi_specified := True,
      scale_of_organisation := 2,
      soi_groups := Some 1,
      initialise_parameter := Some (Dims 2 2)\<rparr>"

text \<open>
  One channel, intra-brain, with the grouped ROI \<open>[[[0, 0]], [[0, 0]]]\<close>: one group that
  names the only channel twice.
\<close>

definition example_single :: hyperit where
  "example_single = \<lparr>channel_names = PList [PList [PList [PStr ''C1'']], PList [PList [PStr ''C1'']]],
                 channel_indices1 = PList [PInt 0],
                 channel_indices2 = PList [PInt 0],
                 all_data = (Arr [Arr [Num 1, Num 2, Num 4]], Arr [Arr [Num 1, Num 2, Num 4]]),
                 data1 = Arr [Arr [Num 1, Num 2, Num 4]],
                 data2 = Arr [Arr [Num 1, Num 2, Num 4]],
                 roi = PList [],
                 roi_specified = False,
                 scale_of_organisation = 1,
                 soi_groups = None,
                 inter_brain = False,
                 is_epoched = False,
                 initialise_parameter = None,
                 verbose = False,
                 n_epo = 1,
                 n_chan = 1,
                 n_samples = 3\<rparr>"

definition example_single_grouped :: hyperit where
  "example_single_grouped = example_single
     \<lparr>channel_indices1 := PList [PList [PInt 0, PInt 0]],
      channel_indices2 := PList [PList [PInt 0, PInt 0]],
      roi := PList [PList [PList [PInt 0, PInt 0]], PList [PList [PInt 0, PInt 0]]],
      roi_specified := True,
      scale_of_organisation := 2,
      soi_groups := Some 1,
      initialise_parameter := Some (Dims 2 2)\<rparr>"

text \<open>Estimator functions whose answer is the number of the call, counted from 1.\<close>

definition example_te_functions :: te_functions where
  "example_te_functions = \<lparr>te_ksg = (\<lambda>c s1 s2 e. Inr (real c + 1)),
                            te_kernel = (\<lambda>c s1 s2 e. Inr (real c + 1)),
                            te_gaussian = (\<lambda>c s1 s2 e. Inr (real c + 1)),
                            te_symbolic = (\<lambda>c s1 s2 e. Inr (real c + 1))\<rparr>"

text \<open>
  Sequences of eight samples for the bin count, one of five samples with zero
  interquartile range, one whose quotient of range and divisor is \<open>2^1400\<close>, and
  one whose doubled interquartile range is \<open>2^1024\<close>.
\<close>

definition example_ramp :: "real list" where
  "example_ramp = [0, 1, 2, 3, 4, 5, 6, 7]"

definition example_even :: "real list" where
  "example_even = [0, 2, 4, 6, 8, 10, 12, 14]"

definition example_flat :: "real list" where
  "example_flat = [1, 1, 1, 1, 5]"

definition example_extreme :: "real list" where
  "example_extreme = [0, 0, 0, 0, 1 / 2 ^ 700, 1 / 2 ^ 700, 1 / 2 ^ 700, 2 ^ 700]"

definition example_huge :: "real list" where
  "example_huge = [0, 0, 0, 0, 2 ^ 1023, 2 ^ 1023, 2 ^ 1023, 2 ^ 1023]"

section \<open>Predicates used in the proofs\<close>

text \<open>
  The loop invariant: the matrix is square of side \<open>d\<close>, equal to its mirror image,
  and its diagonal cells still hold the value \<open>z\<close> they were allocated with.
\<close>

definition mi_inv :: "nat \<Rightarrow> cell \<Rightarrow> tensor \<Rightarrow> bool" where
  "mi_inv d z M \<longleftrightarrow> length M = d \<and> (\<forall>i<d. length (M ! i) = d) \<and>
     (\<forall>i<d. \<forall>j<d. M ! i ! j = M ! j ! i) \<and> (\<forall>i<d. M ! i ! i = z)"

text \<open>
  The four failures the specification lists for a ROI assignment, and the exceptions
  that the conversion of names to indices can raise.
\<close>

definition listed_error :: "error \<Rightarrow> bool" where
  "listed_error e \<longleftrightarrow> e = ValueError ROINotRecognised \<or> e = ValueError ROIGroupCount
      \<or> e = ValueError ROICardinality \<or> e = ValueError NotInList"

definition convert_error :: "error \<Rightarrow> bool" where
  "convert_error e \<longleftrightarrow> e = ValueError NotInList \<or> e = AttributeError \<or> e = IndexError \<or> e = TypeError"

text \<open>
  The shape of a cell and of a tensor: \<open>a\<close> rows of \<open>b\<close> cells, each cell \<open>n\<close> epoch
  rows of \<open>k\<close> statistics. \<open>stat_len\<close> is the length of the statistic axis that
  \<open>compute_mi\<close> allocates for an estimator type.
\<close>

definition cell_shape :: "nat \<Rightarrow> nat \<Rightarrow> cell \<Rightarrow> bool" where
  "cell_shape n k c \<longleftrightarrow> length c = n \<and> list_all (\<lambda>r. length r = k) c"

definition tensor_shape :: "nat \<Rightarrow> nat \<Rightarrow> nat \<Rightarrow> nat \<Rightarrow> tensor \<Rightarrow> bool" where
  "tensor_shape a b n k M \<longleftrightarrow>
     length M = a \<and> list_all (\<lambda>row. length row = b \<and> list_all (cell_shape n k) row) M"

definition stat_len :: "string \<Rightarrow> nat" where
  "stat_len et = (if et = ''histogram'' \<or> et = ''symbolic'' then 1 else 4)"

text \<open>
  A row of statistics in which only the estimate, at index 0, can be non-zero, and a
  tensor all of whose rows satisfy a predicate.
\<close>

definition estimate_only :: "real list \<Rightarrow> bool" where
  "estimate_only r \<longleftrightarrow> (\<forall>k<length r. 0 < k \<longrightarrow> r ! k = 0)"

definition tensor_rows :: "(real list \<Rightarrow> bool) \<Rightarrow> tensor \<Rightarrow> bool" where
  "tensor_rows P M \<longleftrightarrow> list_all (list_all (list_all P)) M"

text \<open>
  The entry of pair \<open>(a, b)\<close> in the two transfer-entropy matrices of an inter-brain
  object: both come from the slices of that pair, the second with source and target
  swapped, as the invocations number \<open>2 (a n + b)\<close> and the next.
\<close>

definition te_entry ::
  "jidt \<Rightarrow> hyperit \<Rightarrow> calculator \<Rightarrow> bool \<Rightarrow> nat \<Rightarrow> nat \<Rightarrow> tensor \<Rightarrow> tensor \<Rightarrow> nat \<Rightarrow> nat \<Rightarrow> bool" where
  "te_entry J self calc cs perm n XY YX a b \<longleftrightarrow>
     (\<exists>s1 s2. slices self a b = Inr (s1, s2)
        \<and> estimate_it J calc self cs perm (2 * (a * n + b)) s1 s2 = Inr (XY ! a ! b)
        \<and> estimate_it J calc self cs perm (Suc (2 * (a * n + b))) s2 s1 = Inr (YX ! a ! b))"

text \<open>
  The loop invariant of \<open>compute_te\<close> on an inter-brain object, before pair \<open>(i, j)\<close>:
  \<open>2 (i n + j)\<close> invocations so far, both matrices \<open>n\<close> by \<open>n\<close>, and every earlier
  pair filled in.
\<close>

definition te_inv ::
  "jidt \<Rightarrow> hyperit \<Rightarrow> calculator \<Rightarrow> bool \<Rightarrow> nat \<Rightarrow> nat \<Rightarrow> nat \<Rightarrow> nat \<Rightarrow> nat \<times> tensor \<times> tensor \<Rightarrow> bool" where
  "te_inv J self calc cs perm n i j st \<longleftrightarrow>
     (case st of (c, XY, YX) \<Rightarrow>
        c = 2 * (i * n + j)
      \<and> length XY = n \<and> (\<forall>a<n. length (XY ! a) = n)
      \<and> length YX = n \<and> (\<forall>a<n. length (YX ! a) = n)
      \<and> (\<forall>a<n. \<forall>b<n. a < i \<or> (a = i \<and> b < j) \<longrightarrow> te_entry J self calc cs perm n XY YX a b))"

text \<open>
  The loop invariant of the earlier \<open>compute_te\<close> when a second array was passed,
  before pair \<open>(i, j)\<close>, and the entry of a pair in the two matrices.
\<close>

definition legacy_te_entry ::
  "te_function \<Rightarrow> ndarray \<Rightarrow> ndarray \<Rightarrow> bool \<Rightarrow> nat \<Rightarrow> matrix \<Rightarrow> matrix \<Rightarrow> nat \<Rightarrow> nat \<Rightarrow> bool" where
  "legacy_te_entry te_func signal1 signal2 epoched n XY YX a b \<longleftrightarrow>
     (\<exists>s1 s2. legacy_slices signal1 signal2 epoched a b = Inr (s1, s2)
        \<and> te_func (2 * (a * n + b)) s1 s2 epoched = Inr (XY ! a ! b)
        \<and> te_func (Suc (2 * (a * n + b))) s2 s1 epoched = Inr (YX ! a ! b))"

definition legacy_te_inv ::
  "te_function \<Rightarrow> ndarray \<Rightarrow> ndarray \<Rightarrow> bool \<Rightarrow> nat \<Rightarrow> nat \<Rightarrow> nat \<Rightarrow> nat \<times> matrix \<times> matrix \<Rightarrow> bool" where
  "legacy_te_inv te_func signal1 signal2 epoched n i j st \<longleftrightarrow>
     (case st of (c, XY, YX) \<Rightarrow>
        c = 2 * (i * n + j)
      \<and> length XY = n \<and> (\<forall>a<n. length (XY ! a) = n)
      \<and> length YX = n \<and> (\<forall>a<n. length (YX ! a) = n)
      \<and> (\<forall>a<n. \<forall>b<n. a < i \<or> (a = i \<and> b < j)
            \<longrightarrow> legacy_te_entry te_func signal1 signal2 epoched n XY YX a b))"








section \<open>Basic facts\<close>

lemma ebind_Inr_iff: "ebind m f = Inr y \<longleftrightarrow> (\<exists>x. m = Inr x \<and> f x = Inr y)"
  by (cases m) auto

lemma for_each_invariant:
  assumes "for_each body xs s = Inr t" and "P s"
    and "\<And>x a b. x \<in> set xs \<Longrightarrow> P a \<Longrightarrow> body x a = Inr b \<Longrightarrow> P b"
  shows "P t"
  using assms
proof (induction xs arbitrary: s)
  case Nil
  then show ?case by simp
next
  case (Cons x xs)
  from Cons.prems(1) obtain u where u: "body x s = Inr u" and rest: "for_each body xs u = Inr t"
    by (auto simp: ebind_Inr_iff)
  have "P u" using Cons.prems(2,3) u by auto
  with rest Cons.IH Cons.prems(3) show ?case by (metis list.set_intros(2))
qed

lemma upt_2: "[0..<2] = [0, 1]"
  by (simp add: upt_rec)

lemma lower_gaussian: "lower ''gaussian'' = ''gaussian''"
  by (simp add: lower_def lower_char_def)

lemma lower_kernel: "lower ''kernel'' = ''kernel''"
  by (simp add: lower_def lower_char_def)

lemma lower_histogram: "lower ''histogram'' = ''histogram''"
  by (simp add: lower_def lower_char_def)

lemma init_example_intra: "init example_data example_data example_names False = Inr example_intra"
  by (simp add: init_def check_data_def example_data_def example_names_def example_intra_def
      ndim_def arange_def nth_err_def Let_def)

lemma init_example_inter: "init example_data example_data2 example_names False = Inr example_inter"
  by (simp add: init_def check_data_def example_data_def example_data2_def example_names_def
      example_inter_def ndim_def arange_def nth_err_def Let_def upt_2)

lemma tensor_set_nth:
  assumes "tensor_set M i j v = Inr M1"
  shows "length M1 = length M" and "a < length M \<Longrightarrow> length (M1 ! a) = length (M ! a)"
    and "a < length M \<Longrightarrow> b < length (M ! a) \<Longrightarrow> M1 ! a ! b = (if a = i \<and> b = j then v else M ! a ! b)"
    and "i < length M" and "j < length (M ! i)"
  using assms by (auto simp: tensor_set_def nth_list_update split: if_splits)

section \<open>Mutual information of an intra-brain object\<close>

lemma two_updates:
  "X = (if a = j \<and> b = i then w else Y) \<Longrightarrow> Y = (if a = i \<and> b = j then v else Z) \<Longrightarrow> w = v
   \<Longrightarrow> X = (if (a = i \<and> b = j) \<or> (a = j \<and> b = i) then v else Z)"
  by (cases "a = i"; cases "b = j"; cases "a = j"; cases "b = i") simp_all

lemma mirrored_eq:
  "X = (if (a = i \<and> b = j) \<or> (a = j \<and> b = i) then v else P) \<Longrightarrow>
   Y = (if (b = i \<and> a = j) \<or> (b = j \<and> a = i) then v else Q) \<Longrightarrow> P = Q \<Longrightarrow> X = Y"
  by (cases "a = i"; cases "b = j"; cases "a = j"; cases "b = i") simp_all

lemma mi_inv_zeros: "mi_inv d (replicate e (replicate k 0)) (zeros d d e k)"
  by (simp add: mi_inv_def zeros_def)

lemma mi_pair_intra_inv:
  assumes "\<not> inter_brain self" and "mi_pair J self et calc cs perm i j (c, M) = Inr (c', M')"
    and "mi_inv d z M"
  shows "mi_inv d z M'"
proof (cases "i = j")
  case True
  with assms show ?thesis by (simp add: mi_pair_def)
next
  case False
  from assms(1,2) False
  have "\<exists>v M1 w. tensor_set M i j v = Inr M1 \<and> tensor_get M1 i j = Inr w \<and> tensor_set M1 j i w = Inr M'"
    unfolding mi_pair_def
    apply (simp add: ebind_Inr_iff split_beta)
    apply (elim exE conjE)
    apply blast
    done
  then obtain v M1 w where
    s1: "tensor_set M i j v = Inr M1" and g: "tensor_get M1 i j = Inr w" and s2: "tensor_set M1 j i w = Inr M'"
    by blast
  note A = tensor_set_nth[OF s1] and B = tensor_set_nth[OF s2]
  have len: "length M = d" "\<And>a. a < d \<Longrightarrow> length (M ! a) = d"
    using assms(3) by (auto simp: mi_inv_def)
  have ij: "i < d" "j < d" using A(4,5) len by auto
  have w: "w = v" using g A ij len by (auto simp: tensor_get_def split: if_splits)
  have M1: "\<And>a b. a < d \<Longrightarrow> b < d \<Longrightarrow> M1 ! a ! b = (if a = i \<and> b = j then v else M ! a ! b)"
    using A(3) len by auto
  have len1: "length M1 = d" "\<And>a. a < d \<Longrightarrow> length (M1 ! a) = d"
    using A(1,2) len by auto
  have len': "length M' = d" "\<And>a. a < d \<Longrightarrow> length (M' ! a) = d"
    using B(1,2) len1 by auto
  have M': "M' ! a ! b = (if (a = i \<and> b = j) \<or> (a = j \<and> b = i) then v else M ! a ! b)"
    if "a < d" "b < d" for a b
  proof -
    have "M' ! a ! b = (if a = j \<and> b = i then w else M1 ! a ! b)"
      using B(3)[of a b] len1 that by simp
    then show ?thesis using M1[OF that] w by (rule two_updates)
  qed
  have sym: "M ! a ! b = M ! b ! a" if "a < d" "b < d" for a b
    using assms(3) that by (simp add: mi_inv_def)
  have diag: "M ! a ! a = z" if "a < d" for a
    using assms(3) that by (simp add: mi_inv_def)
  have sym': "M' ! a ! b = M' ! b ! a" if "a < d" "b < d" for a b
    using M'[OF that] M'[OF that(2) that(1)] sym[OF that] by (rule mirrored_eq)
  have diag': "M' ! a ! a = z" if "a < d" for a
  proof -
    have "\<not> ((a = i \<and> a = j) \<or> (a = j \<and> a = i))" using False by blast
    then have "M' ! a ! a = M ! a ! a" using M'[OF that that] by (simp only: if_False)
    then show ?thesis using diag[OF that] by simp
  qed
  show ?thesis
    unfolding mi_inv_def using len' sym' diag' by blast
qed

lemma mi_alloc_zeros:
  assumes "mi_alloc self et = Inr M0"
  shows "\<exists>d. M0 = zeros d d (n_epo self) (if et = ''histogram'' \<or> et = ''symbolic'' then 1 else 4)"
  using assms by (auto simp: mi_alloc_def ebind_Inr_iff split: if_splits)

lemma compute_mi_intra_inv:
  assumes "\<not> inter_brain self" and "compute_mi J self et cs perm = Inr M"
  shows "mi_inv (length M)
           (replicate (n_epo self)
              (replicate (if lower et = ''histogram'' \<or> lower et = ''symbolic'' then 1 else 4) 0)) M"
proof -
  from assms(2) obtain calc sg M0 n c where
    al: "mi_alloc self (lower et) = Inr M0"
    and lp: "for_each (\<lambda>i. for_each (mi_pair J self (lower et) calc sg perm i) [0..<n]) [0..<n] (0, M0) = Inr (c, M)"
    by (auto simp: compute_mi_def ebind_Inr_iff split: prod.splits)
  let ?k = "if lower et = ''histogram'' \<or> lower et = ''symbolic'' then 1 else 4 :: nat"
  from mi_alloc_zeros[OF al] obtain d where M0: "M0 = zeros d d (n_epo self) ?k"
    by blast
  let ?z = "replicate (n_epo self) (replicate ?k (0::real))"
  let ?P = "\<lambda>st. mi_inv d ?z (snd st)"
  have inner: "\<And>i a b. ?P a \<Longrightarrow> for_each (mi_pair J self (lower et) calc sg perm i) [0..<n] a = Inr b \<Longrightarrow> ?P b"
  proof -
    fix i a b assume Pa: "?P a" and run: "for_each (mi_pair J self (lower et) calc sg perm i) [0..<n] a = Inr b"
    show "?P b"
    proof (rule for_each_invariant[OF run, where P = ?P])
      show "?P a" by (rule Pa)
    next
      fix x s t assume "?P s" "mi_pair J self (lower et) calc sg perm i x s = Inr t"
      then show "?P t"
        using mi_pair_intra_inv[OF assms(1), of J "lower et" calc sg perm i x "fst s" "snd s" "fst t" "snd t" d ?z]
        by simp
    qed
  qed
  have "?P (c, M)"
    by (rule for_each_invariant[OF lp, where P = ?P]) (use inner M0 mi_inv_zeros in auto)
  then have inv: "mi_inv d ?z M" by simp
  then have "length M = d" by (simp add: mi_inv_def)
  with inv show ?thesis by simp
qed

text \<open>
  Claim C1. On an intra-brain object (\<open>data1\<close> equal to \<open>data2\<close> at construction), for
  every estimator type, the matrix that \<open>compute_mi\<close> returns is square and symmetric:
  the cell of units \<open>(i, j)\<close> equals the cell of \<open>(j, i)\<close>, hence so does every entry
  \<open>[i, j, e, s]\<close>; and every diagonal cell is still the zero block it was allocated as.
  The calculator is arbitrary, so the symmetry does not rest on the estimate itself.
\<close>

theorem compute_mi_intra_symmetric:
  assumes "\<not> inter_brain self"
    and "compute_mi J self estimator_type calc_sigstats perm = Inr M"
    and "i < length M" and "j < length M"
  shows "length (M ! i) = length M
       \<and> M ! i ! j = M ! j ! i
       \<and> M ! i ! j ! e ! s = M ! j ! i ! e ! s
       \<and> M ! i ! i = replicate (n_epo self)
           (replicate (if lower estimator_type = ''histogram'' \<or> lower estimator_type = ''symbolic''
                       then 1 else 4) 0)"
proof -
  note inv = compute_mi_intra_inv[OF assms(1,2)]
  have sq: "length (M ! i) = length M" using inv assms(3) by (simp add: mi_inv_def)
  have sym: "M ! i ! j = M ! j ! i" using inv assms(3,4) by (simp add: mi_inv_def)
  have diag: "M ! i ! i = replicate (n_epo self)
           (replicate (if lower estimator_type = ''histogram'' \<or> lower estimator_type = ''symbolic''
                       then 1 else 4) 0)"
    using inv assms(3) by (simp add: mi_inv_def)
  from sq sym diag show ?thesis by simp
qed

lemma compute_mi_example_intra:
  "compute_mi example_jidt example_intra ''gaussian'' False 100 =
     Inr [[[[0, 0, 0, 0]], [[2 * ln 2, 0, 0, 0]]], [[[2 * ln 2, 0, 0, 0]], [[0, 0, 0, 0]]]]"
  by (simp add: compute_mi_def lower_gaussian which_mi_estimator_def mi_alloc_def loop_range_def
      example_intra_def example_jidt_def example_data_def zeros_def upt_2 mi_pair_def slices_def
      channel_def nth_err_def estimate_it_def estimate_epoch_def run_calculator_def tensor_set_def tensor_get_def
      eval_nat_numeral)

theorem compute_mi_intra_symmetric_witness:
  "\<not> inter_brain example_intra
   \<and> compute_mi example_jidt example_intra ''gaussian'' False 100 =
       Inr [[[[0, 0, 0, 0]], [[2 * ln 2, 0, 0, 0]]], [[[2 * ln 2, 0, 0, 0]], [[0, 0, 0, 0]]]]
   \<and> [[[[0, 0, 0, 0]], [[2 * ln 2, 0, 0, 0]]], [[[2 * ln 2, 0, 0, 0]], [[0, 0, 0, 0]]]] ! 0 ! 1 ! 0 ! 0
       = [[[[0, 0, 0, 0]], [[2 * ln 2, 0, 0, 0]]], [[[2 * ln 2, 0, 0, 0]], [[0, 0, 0, 0::real]]]] ! 1 ! 0 ! 0 ! 0
   \<and> [[[[0, 0, 0, 0]], [[2 * ln 2, 0, 0, 0]]], [[[2 * ln 2, 0, 0, 0]], [[0, 0, 0, 0::real]]]] ! 0 ! 0
       = replicate (n_epo example_intra) (replicate 4 0)"
proof -
  have a: "\<not> inter_brain example_intra" by (simp add: example_intra_def)
  note b = compute_mi_example_intra
  have c: "(0::nat) < length [[[[0, 0, 0, 0]], [[2 * ln 2, 0, 0, 0]]], [[[2 * ln 2, 0, 0, 0]], [[0, 0, 0, 0::real]]]]"
    and d: "(1::nat) < length [[[[0, 0, 0, 0]], [[2 * ln 2, 0, 0, 0]]], [[[2 * ln 2, 0, 0, 0]], [[0, 0, 0, 0::real]]]]"
    by simp_all
  from compute_mi_intra_symmetric[OF a b c d, of 0 0] a b show ?thesis
    by (simp add: lower_gaussian)
qed

section \<open>Region of interest: failures\<close>

lemma remdups_two:
  assumes "a \<in> set l" "b \<in> set l" "a \<noteq> b"
  shows "length (remdups l) \<noteq> 1"
proof
  assume h: "length (remdups l) = 1"
  have "card (set l) = 1" using h by (simp add: card_set)
  then obtain x where "set l = {x}" by (auto simp: card_1_singleton_iff)
  with assms show False by auto
qed

lemma all_lists_not_pointwise:
  assumes "list_all is_list xs" "xs \<noteq> []"
  shows "list_ex is_list xs"
  using assms by (cases xs) auto

lemma group_lengths_two: "group_lengths [PList xs, PList ys] = map (\<lambda>g. length (items_of g)) (xs @ ys)"
  by (simp add: group_lengths_def)

text \<open>
  Claim C7. A grouped ROI (both halves lists of lists) whose halves have different
  numbers of groups raises the group-count error; with equal numbers of groups, two
  groups of different sizes anywhere in the ROI raise the cardinality error, as for
  \<open>[[1,2],[3]]\<close> against \<open>[[4,5],[6]]\<close>.
\<close>

theorem roi_setter_grouped_mismatch:
  assumes "list_all is_list xs" and "list_all is_list ys"
  shows "(length xs \<noteq> length ys \<longrightarrow>
            roi_setter self [PList xs, PList ys] = Inl (ValueError ROIGroupCount, self\<lparr>roi_specified := True\<rparr>))
       \<and> (length xs = length ys \<and> g1 \<in> set (xs @ ys) \<and> g2 \<in> set (xs @ ys)
            \<and> length (items_of g1) \<noteq> length (items_of g2) \<longrightarrow>
            roi_setter self [PList xs, PList ys] =
              Inl (ValueError ROICardinality, self\<lparr>roi_specified := True, soi_groups := Some (length xs)\<rparr>))"
proof (intro conjI impI)
  assume ne: "length xs \<noteq> length ys"
  then have "xs \<noteq> [] \<or> ys \<noteq> []" by auto
  then have np: "list_ex is_list xs \<or> list_ex is_list ys"
    using assms all_lists_not_pointwise by blast
  show "roi_setter self [PList xs, PList ys] = Inl (ValueError ROIGroupCount, self\<lparr>roi_specified := True\<rparr>)"
    using np assms ne by (auto simp: roi_setter_def Let_def)
next
  assume h: "length xs = length ys \<and> g1 \<in> set (xs @ ys) \<and> g2 \<in> set (xs @ ys)
            \<and> length (items_of g1) \<noteq> length (items_of g2)"
  then have "xs \<noteq> [] \<or> ys \<noteq> []" by auto
  then have np: "list_ex is_list xs \<or> list_ex is_list ys"
    using assms all_lists_not_pointwise by blast
  have "length (remdups (group_lengths [PList xs, PList ys])) \<noteq> 1"
    unfolding group_lengths_two
    by (rule remdups_two[of "length (items_of g1)" _ "length (items_of g2)"]) (use h in auto)
  then show "roi_setter self [PList xs, PList ys] =
              Inl (ValueError ROICardinality, self\<lparr>roi_specified := True, soi_groups := Some (length xs)\<rparr>)"
    using np assms h by (auto simp: roi_setter_def Let_def)
qed


theorem roi_setter_grouped_mismatch_witness:
  "roi_setter example_inter
      [PList [PList [PInt 1, PInt 2], PList [PInt 3]], PList [PList [PInt 4, PInt 5], PList [PInt 6]]]
    = Inl (ValueError ROICardinality, example_inter\<lparr>roi_specified := True, soi_groups := Some 2\<rparr>)
   \<and> roi_setter example_inter
      [PList [PList [PInt 1, PInt 2], PList [PInt 3]], PList [PList [PInt 4, PInt 5]]]
    = Inl (ValueError ROIGroupCount, example_inter\<lparr>roi_specified := True\<rparr>)"
proof -
  have a: "list_all is_list [PList [PInt 1, PInt 2], PList [PInt 3]]"
    and b: "list_all is_list [PList [PInt 4, PInt 5], PList [PInt 6]]"
    and c: "list_all is_list [PList [PInt 4, PInt 5]]"
    by simp_all
  from roi_setter_grouped_mismatch[OF a b, of example_inter "PList [PInt 1, PInt 2]" "PList [PInt 3]"]
       roi_setter_grouped_mismatch[OF a c, of example_inter]
  show ?thesis by simp
qed

lemma map_err_Inl:
  assumes "map_err f xs = Inl e"
  shows "\<exists>x \<in> set xs. f x = Inl e"
  using assms
proof (induction xs)
  case Nil
  then show ?case by simp
next
  case (Cons x xs)
  then show ?case by (cases "f x"; cases "map_err f xs") auto
qed

lemma fancy_Inl:
  "fancy rows p = Inl e \<Longrightarrow> e = IndexError"
  "fancy_list rows ps = Inl e \<Longrightarrow> e = IndexError"
proof (induction rows p and rows ps arbitrary: e and e rule: fancy_fancy_list.induct)
  case (1 rows k)
  then show ?case by (auto simp: py_index_def split: if_splits)
next
  case (2 rows s)
  then show ?case by simp
next
  case (3 rows ps)
  then show ?case by (cases "fancy_list rows ps") auto
next
  case (4 rows)
  then show ?case by simp
next
  case (5 rows p ps)
  then show ?case by (cases "fancy rows p"; cases "fancy_list rows ps") auto
qed

lemma take_channels_Inl: "take_channels a idx = Inl e \<Longrightarrow> e = IndexError"
  by (cases a) (auto simp: take_channels_def dest: fancy_Inl)

lemma take_channels_epoched_Inl: "take_channels_epoched a idx = Inl e \<Longrightarrow> e = IndexError"
proof (cases a)
  case (Num r)
  assume "take_channels_epoched a idx = Inl e"
  with Num show ?thesis by (simp add: take_channels_epoched_def)
next
  case (Arr es)
  assume h: "take_channels_epoched a idx = Inl e"
  show ?thesis
  proof (cases "map_err (\<lambda>e. take_channels e idx) es")
    case (Inl e')
    with h Arr have "e' = e" by (simp add: take_channels_epoched_def)
    with Inl map_err_Inl[of "\<lambda>e. take_channels e idx" es e] show ?thesis
      by (auto dest: take_channels_Inl)
  next
    case (Inr r)
    with h Arr show ?thesis by (simp add: take_channels_epoched_def)
  qed
qed

lemma py_len_Inl: "py_len v = Inl e \<Longrightarrow> e = TypeError"
  by (cases v) auto

lemma list_index_Inl: "list_index xs x = Inl e \<Longrightarrow> e = ValueError NotInList"
  by (induction xs arbitrary: e) (auto simp: ebind_Inr_iff split: if_splits elim: ebind.elims)

lemma str_index_Inl: "str_index s sub = Inl e \<Longrightarrow> e = ValueError NotInList"
  by (induction s arbitrary: e) (auto split: if_splits elim: ebind.elims)

lemma index_of_Inl: "index_of names name = Inl e \<Longrightarrow> e = ValueError NotInList \<or> e = AttributeError"
  by (cases names) (auto dest: list_index_Inl str_index_Inl)

lemma name_to_index_Inl: "name_to_index names v = Inl e \<Longrightarrow> e = ValueError NotInList \<or> e = AttributeError"
  by (cases v) (auto dest: index_of_Inl elim: ebind.elims)

lemma py_getitem_Inl: "py_getitem v i = Inl e \<Longrightarrow> e = IndexError \<or> e = TypeError"
  by (cases v) (auto simp: nth_err_def split: if_splits elim: ebind.elims)

lemma py_iter_Inl: "py_iter v = Inl e \<Longrightarrow> e = TypeError"
  by (cases v) auto

lemma ebind_Inl: "ebind m f = Inl e \<Longrightarrow> m = Inl e \<or> (\<exists>x. m = Inr x \<and> f x = Inl e)"
  by (cases m) auto

lemma map_name_to_index_Inl: "map_err (name_to_index names) xs = Inl e \<Longrightarrow> convert_error e"
  by (auto simp: convert_error_def dest!: map_err_Inl name_to_index_Inl)

lemma convert_group_Inl:
  "ebind (py_iter grp) (\<lambda>members. ebind (map_err (name_to_index names) members) (\<lambda>is. Inr (PList is))) = Inl e
   \<Longrightarrow> convert_error e"
  by (auto dest!: ebind_Inl dest: py_iter_Inl map_name_to_index_Inl simp: convert_error_def)

lemma convert_names_to_indices_Inl:
  assumes "convert_names_to_indices self roi_part participant = Inl e"
  shows "convert_error e"
proof (cases "py_getitem (channel_names self) participant")
  case (Inl e1)
  with assms have "e = e1" by (simp add: convert_names_to_indices_def)
  with Inl show ?thesis using py_getitem_Inl by (auto simp: convert_error_def)
next
  case names: (Inr names)
  show ?thesis
  proof (cases "py_iter roi_part")
    case (Inl e1)
    with assms names have "e = e1" by (simp add: convert_names_to_indices_def)
    with Inl show ?thesis using py_iter_Inl by (auto simp: convert_error_def)
  next
    case parts: (Inr parts)
    show ?thesis
    proof (cases "list_all is_list parts")
      case True
      with assms names parts
      have "ebind (map_err (\<lambda>grp.
                     ebind (py_iter grp) (\<lambda>members.
                     ebind (map_err (name_to_index names) members) (\<lambda>is. Inr (PList is))))
                   parts)
              (\<lambda>gs. Inr (PList gs)) = Inl e"
        by (simp add: convert_names_to_indices_def)
      then have "map_err (\<lambda>grp.
                     ebind (py_iter grp) (\<lambda>members.
                     ebind (map_err (name_to_index names) members) (\<lambda>is. Inr (PList is))))
                   parts = Inl e"
        by (auto dest: ebind_Inl)
      then obtain g where "ebind (py_iter g) (\<lambda>members.
                     ebind (map_err (name_to_index names) members) (\<lambda>is. Inr (PList is))) = Inl e"
        using map_err_Inl by fastforce
      then show ?thesis by (rule convert_group_Inl)
    next
      case False
      show ?thesis
      proof (cases "is_list roi_part")
        case True
        with assms names parts False
        have "ebind (map_err (name_to_index names) parts) (\<lambda>is. Inr (PList is)) = Inl e"
          by (simp add: convert_names_to_indices_def)
        then have "map_err (name_to_index names) parts = Inl e" by (auto dest: ebind_Inl)
        then show ?thesis by (rule map_name_to_index_Inl)
      next
        case nl: False
        show ?thesis
        proof (cases roi_part)
          case (PStr name)
          with assms names parts False nl
          have "ebind (index_of names name) (\<lambda>i. Inr (PList [PInt (int i)])) = Inl e"
            by (simp add: convert_names_to_indices_def)
          then have "index_of names name = Inl e" by (auto dest: ebind_Inl)
          then show ?thesis using index_of_Inl by (auto simp: convert_error_def)
        next
          case (PInt k)
          with parts show ?thesis by simp
        next
          case (PList xs)
          with nl show ?thesis by simp
        qed
      qed
    qed
  qed
qed

lemma listed_convert_error: "listed_error e \<Longrightarrow> convert_error e \<Longrightarrow> e = ValueError NotInList"
  by (auto simp: listed_error_def convert_error_def)

lemma listed_not_index: "\<not> listed_error IndexError" "\<not> listed_error TypeError" "\<not> listed_error AttributeError"
  "\<not> listed_error (ValueError Unpack)"
  by (simp_all add: listed_error_def)

lemma roi_subset_Inl:
  assumes "roi_subset self ci1 ci2 = Inl (e, self')"
  shows "e = IndexError \<or> e = TypeError"
  using assms unfolding roi_subset_def
  by (auto split: if_splits sum.splits dest: take_channels_Inl take_channels_epoched_Inl py_len_Inl)

lemma roi_assign_failure:
  assumes "roi_assign self roi_list = Inl (e, self')" and "listed_error e"
  shows "e = ValueError NotInList \<and> (self' = self \<or> (\<exists>ci. self' = self\<lparr>channel_indices1 := ci\<rparr>))"
proof -
  have v: "\<not> (verbose self \<and> soi_groups self = None)"
  proof
    assume "verbose self \<and> soi_groups self = None"
    then have "roi_assign self roi_list = Inl (AttributeError, self)" by (simp add: roi_assign_def)
    with assms listed_not_index show False by auto
  qed
  then have v: "(verbose self \<and> soi_groups self = None) = False" by blast
  have l: "length roi_list = 2"
  proof (rule ccontr)
    assume "length roi_list \<noteq> 2"
    with v have "roi_assign self roi_list = Inl (ValueError Unpack, self)"
      by (simp only: roi_assign_def if_False if_True simp_thms)
    with assms listed_not_index show False by auto
  qed
  show ?thesis
  proof (cases "convert_names_to_indices self (roi_list ! 0) 0")
    case (Inl e1)
    from v l Inl have "roi_assign self roi_list = Inl (e1, self)"
      by (simp only: roi_assign_def if_False if_True simp_thms sum.case)
    with assms(1) have "e = e1 \<and> self' = self" by simp
    with Inl assms(2) show ?thesis
      using convert_names_to_indices_Inl listed_convert_error by blast
  next
    case ci1: (Inr ci1)
    let ?s1 = "self\<lparr>channel_indices1 := ci1\<rparr>"
    show ?thesis
    proof (cases "convert_names_to_indices ?s1 (roi_list ! 1) 1")
      case (Inl e2)
      from v l ci1 Inl have "roi_assign self roi_list = Inl (e2, ?s1)"
        by (simp only: roi_assign_def if_False if_True simp_thms sum.case)
      with assms(1) have "e = e2 \<and> self' = ?s1" by simp
      with Inl assms(2) show ?thesis
        using convert_names_to_indices_Inl listed_convert_error by blast
    next
      case ci2: (Inr ci2)
      from v l ci1 ci2 have "roi_assign self roi_list = roi_subset (self\<lparr>channel_indices1 := ci1, channel_indices2 := ci2\<rparr>) ci1 ci2"
        by (simp only: roi_assign_def if_False if_True simp_thms sum.case)
      with assms(1) have "e = IndexError \<or> e = TypeError"
        using roi_subset_Inl by metis
      with assms(2) show ?thesis by (auto simp: listed_not_index)
    qed
  qed
qed

text \<open>
  Claim C3, as amended. When a ROI assignment raises one of the four listed errors, the
  fields \<open>roi\<close>, \<open>data1\<close>, \<open>data2\<close>, \<open>n_chan\<close> and \<open>channel_indices2\<close> are as
  before and \<open>roi_specified\<close> is set. After a structure or group-count error nothing
  else has changed; after a cardinality error the group count has been overwritten as
  well. After an unknown channel name the scale, the group count, the initialise
  parameter and \<open>channel_indices1\<close> may hold the new values, as the counterexample
  shows.
\<close>

theorem roi_setter_failure_state:
  assumes "roi_setter self roi_list = Inl (e, self')"
    and "e = ValueError ROINotRecognised \<or> e = ValueError ROIGroupCount
          \<or> e = ValueError ROICardinality \<or> e = ValueError NotInList"
  shows "roi self' = roi self \<and> data1 self' = data1 self \<and> data2 self' = data2 self
       \<and> n_chan self' = n_chan self \<and> channel_indices2 self' = channel_indices2 self
       \<and> roi_specified self'
       \<and> (e = ValueError ROINotRecognised \<or> e = ValueError ROIGroupCount
            \<longrightarrow> self' = self\<lparr>roi_specified := True\<rparr>)
       \<and> (e = ValueError ROICardinality
            \<longrightarrow> self' = self\<lparr>roi_specified := True, soi_groups := Some (length (items_of (roi_list ! 0)))\<rparr>)"
proof -
  have le: "listed_error e" using assms(2) by (simp add: listed_error_def)
  let ?s0 = "self\<lparr>roi_specified := True\<rparr>"
  show ?thesis
  proof (cases "list_all pointwise_half roi_list")
    case True
    then have "roi_setter self roi_list = roi_assign (?s0\<lparr>scale_of_organisation := 1\<rparr>) roi_list"
      by (simp add: roi_setter_def Let_def)
    with assms(1) roi_assign_failure[OF _ le, of "?s0\<lparr>scale_of_organisation := 1\<rparr>" roi_list self']
    show ?thesis by auto
  next
    case np: False
    show ?thesis
    proof (cases "list_all grouped_half roi_list")
      case False
      with np have "roi_setter self roi_list = Inl (ValueError ROINotRecognised, ?s0)"
        by (simp add: roi_setter_def Let_def)
      with assms(1) show ?thesis by auto
    next
      case gr: True
      show ?thesis
      proof (cases "length roi_list < 2")
        case True
        with np gr have "roi_setter self roi_list = Inl (IndexError, ?s0)"
          by (simp add: roi_setter_def Let_def)
        with assms(1) le listed_not_index show ?thesis by auto
      next
        case l2: False
        let ?nx = "length (items_of (roi_list ! 0))"
        let ?ny = "length (items_of (roi_list ! 1))"
        show ?thesis
        proof (cases "?nx = ?ny")
          case False
          with np gr l2 have "roi_setter self roi_list = Inl (ValueError ROIGroupCount, ?s0)"
            by (simp add: roi_setter_def Let_def)
          with assms(1) show ?thesis by auto
        next
          case eq: True
          let ?s1 = "?s0\<lparr>soi_groups := Some ?nx\<rparr>"
          let ?gl = "group_lengths roi_list"
          show ?thesis
          proof (cases "length (remdups ?gl) = 1")
            case False
            with np gr l2 eq have "roi_setter self roi_list = Inl (ValueError ROICardinality, ?s1)"
              by (simp add: roi_setter_def Let_def)
            with assms(1) show ?thesis by auto
          next
            case True
            with np gr l2 eq have "roi_setter self roi_list =
               roi_assign (?s1\<lparr>scale_of_organisation := hd ?gl,
                                       initialise_parameter := Some (Dims (hd ?gl) (hd ?gl))\<rparr>) roi_list"
              by (simp add: roi_setter_def Let_def)
            with assms(1) roi_assign_failure[OF _ le, of "?s1\<lparr>scale_of_organisation := hd ?gl,
                                       initialise_parameter := Some (Dims (hd ?gl) (hd ?gl))\<rparr>" roi_list self']
            show ?thesis by auto
          qed
        qed
      qed
    qed
  qed
qed

lemma roi_setter_unknown_name:
  "roi_setter example_inter
      [PList [PList [PStr ''C1'', PStr ''C2'']], PList [PList [PStr ''C1'', PStr ''ZZ'']]]
   = Inl (ValueError NotInList,
          example_inter\<lparr>roi_specified := True, soi_groups := Some 1, scale_of_organisation := 2,
                         initialise_parameter := Some (Dims 2 2),
                         channel_indices1 := PList [PList [PInt 0, PInt 1]]\<rparr>)"
  by (simp add: roi_setter_def roi_assign_def convert_names_to_indices_def example_inter_def
      example_names_def group_lengths_def nth_err_def Let_def)

theorem roi_setter_partial_mutation_counterexample:
  "roi_setter example_inter
      [PList [PList [PStr ''C1'', PStr ''C2'']], PList [PList [PStr ''C1'', PStr ''ZZ'']]]
   = Inl (ValueError NotInList,
          example_inter\<lparr>roi_specified := True, soi_groups := Some 1, scale_of_organisation := 2,
                         initialise_parameter := Some (Dims 2 2),
                         channel_indices1 := PList [PList [PInt 0, PInt 1]]\<rparr>)
   \<and> scale_of_organisation (example_inter\<lparr>roi_specified := True, soi_groups := Some 1, scale_of_organisation := 2,
                         initialise_parameter := Some (Dims 2 2),
                         channel_indices1 := PList [PList [PInt 0, PInt 1]]\<rparr>) \<noteq> scale_of_organisation example_inter
   \<and> soi_groups (example_inter\<lparr>roi_specified := True, soi_groups := Some 1, scale_of_organisation := 2,
                         initialise_parameter := Some (Dims 2 2),
                         channel_indices1 := PList [PList [PInt 0, PInt 1]]\<rparr>) \<noteq> soi_groups example_inter
   \<and> channel_indices1 (example_inter\<lparr>roi_specified := True, soi_groups := Some 1, scale_of_organisation := 2,
                         initialise_parameter := Some (Dims 2 2),
                         channel_indices1 := PList [PList [PInt 0, PInt 1]]\<rparr>) \<noteq> channel_indices1 example_inter"
  using roi_setter_unknown_name by (simp add: example_inter_def)

theorem roi_setter_failure_state_witness:
  "roi_setter example_inter [PList [PStr ''C1''], PList [PStr ''ZZ'']]
     = Inl (ValueError NotInList,
            example_inter\<lparr>roi_specified := True, channel_indices1 := PList [PInt 0]\<rparr>)
   \<and> roi (example_inter\<lparr>roi_specified := True, channel_indices1 := PList [PInt 0]\<rparr>) = roi example_inter
   \<and> data1 (example_inter\<lparr>roi_specified := True, channel_indices1 := PList [PInt 0]\<rparr>) = data1 example_inter
   \<and> n_chan (example_inter\<lparr>roi_specified := True, channel_indices1 := PList [PInt 0]\<rparr>) = n_chan example_inter"
proof -
  have r: "roi_setter example_inter [PList [PStr ''C1''], PList [PStr ''ZZ'']]
     = Inl (ValueError NotInList,
            example_inter\<lparr>roi_specified := True, channel_indices1 := PList [PInt 0]\<rparr>)"
    by (simp add: roi_setter_def roi_assign_def convert_names_to_indices_def example_inter_def
      example_names_def nth_err_def Let_def)
  from roi_setter_failure_state[OF r] r show ?thesis by simp
qed

section \<open>Construction with one channel-label sequence\<close>

text \<open>
  Claim C5. Line 297 wraps the whole argument, \<open>[self._channel_names] * 2\<close>, instead of
  repeating its one sequence. For two channels named \<open>[['C1', 'C2']]\<close> the stored
  structure is \<open>[[['C1', 'C2']], [['C1', 'C2']]]\<close>, each side has length 1, and the
  length check raises. With a single channel the check passes, and the stored structure
  is \<open>[[['C1']], [['C1']]]\<close>, not \<open>[['C1'], ['C1']]\<close>.
\<close>

theorem init_single_sequence_fails:
  "init example_data example_data (PList [PList [PStr ''C1'', PStr ''C2'']]) False
     = Inl (ValueError ChannelNamesLength)
   \<and> map_sum id channel_names
        (init (Arr [Arr [Num 1, Num 2, Num 4]]) (Arr [Arr [Num 1, Num 2, Num 4]])
           (PList [PList [PStr ''C1'']]) False)
     = Inr (PList [PList [PList [PStr ''C1'']], PList [PList [PStr ''C1'']]])"
  by (simp add: init_def check_data_def example_data_def ndim_def arange_def nth_err_def Let_def)

section \<open>Shape of the result tensors\<close>

lemma zeros_shape: "tensor_shape a b n k (zeros a b n k)"
  by (simp add: tensor_shape_def cell_shape_def zeros_def list_all_iff)

lemma list_all_update: "list_all P xs \<Longrightarrow> P x \<Longrightarrow> list_all P (xs[i := x])"
  using set_update_subset_insert[of xs i x] by (auto simp: list_all_iff)

lemma tensor_set_shape:
  assumes "tensor_set M i j v = Inr M1" and "tensor_shape a b n k M" and "cell_shape n k v"
  shows "tensor_shape a b n k M1"
proof -
  from assms(1) have i: "i < length M" and j: "j < length (M ! i)" and M1: "M1 = M[i := (M ! i)[j := v]]"
    by (auto simp: tensor_set_def split: if_splits)
  have row: "length (M ! i) = b \<and> list_all (cell_shape n k) (M ! i)"
    using assms(2) i by (auto simp: tensor_shape_def list_all_iff)
  then have "length ((M ! i)[j := v]) = b \<and> list_all (cell_shape n k) ((M ! i)[j := v])"
    using assms(3) by (simp add: list_all_update)
  then show ?thesis using assms(2) unfolding M1 tensor_shape_def
    by (simp add: list_all_update)
qed

lemma tensor_get_shape:
  assumes "tensor_get M i j = Inr w" and "tensor_shape a b n k M"
  shows "cell_shape n k w"
  using assms by (auto simp: tensor_get_def tensor_shape_def list_all_length split: if_splits)

lemma tensor_shape_nth:
  assumes "tensor_shape a b n k M" and "i < length M" and "j < length (M ! i)" and "e < length (M ! i ! j)"
  shows "length (M ! i ! j) = n" and "length (M ! i ! j ! e) = k"
  using assms by (auto simp: tensor_shape_def cell_shape_def list_all_length)

lemma map_err_Inr:
  assumes "map_err f xs = Inr ys"
  shows "length ys = length xs \<and> (\<forall>y \<in> set ys. \<exists>x \<in> set xs. f x = Inr y)"
  using assms
proof (induction xs arbitrary: ys)
  case Nil
  then show ?case by simp
next
  case (Cons x xs)
  from Cons.prems obtain y zs where y: "f x = Inr y" and zs: "map_err f xs = Inr zs" and ys: "ys = y # zs"
    by (auto simp: ebind_Inr_iff)
  from Cons.IH[OF zs] y show ?case unfolding ys by auto
qed

lemma mi_hist_row_length:
  assumes "ebind (epoch_pair self s1 s2 epo_i) (\<lambda>(X, Y).
       ebind (mi_hist_epoch X Y) (\<lambda>result. Inr [result])) = Inr r"
  shows "length r = 1"
  using assms by (auto simp: ebind_Inr_iff)

lemma mi_symb_row_length:
  assumes "ebind (epoch_pair self s1 s2 epo_i) (\<lambda>(X, Y).
       ebind (mi_symb_epoch X Y l m) (\<lambda>result. Inr [result])) = Inr r"
  shows "length r = 1"
  using assms by (auto simp: ebind_Inr_iff)

lemma mi_hist_shape:
  assumes "mi_hist self s1 s2 = Inr v"
  shows "cell_shape (n_epo self) 1 v"
proof -
  from map_err_Inr[OF assms[unfolded mi_hist_def]]
  have "length v = n_epo self" and "\<forall>r \<in> set v. length r = 1"
    using mi_hist_row_length by (simp, blast)
  then show ?thesis by (simp add: cell_shape_def list_all_iff)
qed

lemma mi_symb_shape:
  assumes "mi_symb self s1 s2 l m = Inr v"
  shows "cell_shape (n_epo self) 1 v"
proof -
  from map_err_Inr[OF assms[unfolded mi_symb_def]]
  have "length v = n_epo self" and "\<forall>r \<in> set v. length r = 1"
    using mi_symb_row_length by (simp, blast)
  then show ?thesis by (simp add: cell_shape_def list_all_iff)
qed

lemma run_calculator_length:
  assumes "run_calculator J calc ip cs perm c epo_i X Y = Inr r"
  shows "length r = 4"
  using assms unfolding run_calculator_def
  by (cases cs) (auto simp: ebind_Inr_iff)

lemma estimate_epoch_length:
  assumes "estimate_epoch J calc self cs perm c s1 s2 epo_i = Inr r"
  shows "length r = 4"
proof -
  from assms obtain X Y where
    r: "(case initialise_parameter self of
            Some (Base b) \<Rightarrow>
              (if b \<noteq> 0 then Inl TypeError
               else run_calculator J calc None cs perm c epo_i X Y)
          | other \<Rightarrow> run_calculator J calc other cs perm c epo_i X Y) = Inr r"
    unfolding estimate_epoch_def Let_def ebind_Inr_iff by (auto simp: split_beta)
  show ?thesis
  proof (cases "initialise_parameter self")
    case None
    with r show ?thesis by (simp add: run_calculator_length)
  next
    case (Some ip)
    with r show ?thesis
      by (cases ip) (auto simp: run_calculator_length split: if_splits)
  qed
qed

lemma estimate_it_shape:
  assumes "estimate_it J calc self cs perm c s1 s2 = Inr v"
  shows "cell_shape (n_epo self) 4 v"
proof -
  from map_err_Inr[OF assms[unfolded estimate_it_def]]
  show ?thesis
    by (auto simp: cell_shape_def list_all_iff dest: estimate_epoch_length)
qed


lemma mi_pair_shape:
  assumes "mi_pair J self et calc cs perm i j (c, M) = Inr (c', M')"
    and "tensor_shape a b (n_epo self) (stat_len et) M"
  shows "tensor_shape a b (n_epo self) (stat_len et) M'"
proof (cases "inter_brain self \<or> i \<noteq> j")
  case False
  with assms show ?thesis by (simp add: mi_pair_def)
next
  case True
  let ?est = "\<lambda>s1 s2. if et = ''histogram'' then mi_hist self s1 s2
                 else if et = ''symbolic'' then mi_symb self s1 s2 1 3
                 else (case calc of
                         Some k \<Rightarrow> estimate_it J k self cs perm c s1 s2
                       | None \<Rightarrow> Inl AttributeError)"
  from assms(1) True obtain s1 s2 where sl: "slices self i j = Inr (s1, s2)"
    by (cases "slices self i j") (auto simp: mi_pair_def)
  with True have "mi_pair J self et calc cs perm i j (c, M) =
      ebind (?est s1 s2) (\<lambda>v.
          ebind (tensor_set M i j v) (\<lambda>M1.
            if \<not> inter_brain self
            then ebind (tensor_get M1 i j) (\<lambda>w.
                 ebind (tensor_set M1 j i w) (\<lambda>M2. Inr (Suc c, M2)))
            else Inr (Suc c, M1)))"
    by (simp add: mi_pair_def)
  with assms(1) obtain v M1 where
    v: "?est s1 s2 = Inr v" and s1: "tensor_set M i j v = Inr M1"
    and rest: "(if \<not> inter_brain self
            then ebind (tensor_get M1 i j) (\<lambda>w.
                 ebind (tensor_set M1 j i w) (\<lambda>M2. Inr (Suc c, M2)))
            else Inr (Suc c, M1)) = Inr (c', M')"
    by (auto simp: ebind_Inr_iff)
  have cv: "cell_shape (n_epo self) (stat_len et) v"
  proof (cases "et = ''histogram''")
    case True
    with v mi_hist_shape[of self s1 s2 v] show ?thesis by (simp add: stat_len_def)
  next
    case nh: False
    show ?thesis
    proof (cases "et = ''symbolic''")
      case True
      with v nh mi_symb_shape[of self s1 s2 1 3 v] show ?thesis by (simp add: stat_len_def)
    next
      case False
      with v nh obtain k where "estimate_it J k self cs perm c s1 s2 = Inr v"
        by (cases calc) auto
      with nh False estimate_it_shape[of J k self cs perm c s1 s2 v] show ?thesis by (simp add: stat_len_def)
    qed
  qed
  have sh1: "tensor_shape a b (n_epo self) (stat_len et) M1"
    by (rule tensor_set_shape[OF s1 assms(2) cv])
  show ?thesis
  proof (cases "inter_brain self")
    case True
    with rest sh1 show ?thesis by simp
  next
    case False
    with rest obtain w where g: "tensor_get M1 i j = Inr w" and s2: "tensor_set M1 j i w = Inr M'"
      by (auto simp: ebind_Inr_iff)
    from tensor_set_shape[OF s2 sh1 tensor_get_shape[OF g sh1]] show ?thesis .
  qed
qed

lemma nested_loop_invariant:
  assumes "for_each (\<lambda>i. for_each (body i) js) is s = Inr t" and "P s"
    and "\<And>i j a b. P a \<Longrightarrow> body i j a = Inr b \<Longrightarrow> P b"
  shows "P t"
proof (rule for_each_invariant[OF assms(1), where P = P])
  show "P s" by (rule assms(2))
next
  fix x a b assume "P a" and run: "for_each (body x) js a = Inr b"
  then show "P b"
    using for_each_invariant[OF run, where P = P] assms(3) by blast
qed

lemma compute_mi_shape:
  assumes "compute_mi J self et cs perm = Inr M"
  shows "\<exists>M0 a. mi_alloc self (lower et) = Inr M0 \<and> length M0 = a
           \<and> tensor_shape a a (n_epo self) (stat_len (lower et)) M"
proof -
  from assms obtain calc sg M0 n c where
    al: "mi_alloc self (lower et) = Inr M0"
    and lp: "for_each (\<lambda>i. for_each (mi_pair J self (lower et) calc sg perm i) [0..<n]) [0..<n] (0, M0) = Inr (c, M)"
    by (auto simp: compute_mi_def ebind_Inr_iff split: prod.splits)
  from mi_alloc_zeros[OF al] obtain d where M0: "M0 = zeros d d (n_epo self) (stat_len (lower et))"
    unfolding stat_len_def by blast
  let ?P = "\<lambda>st. tensor_shape d d (n_epo self) (stat_len (lower et)) (snd st)"
  have "?P (c, M)"
  proof (rule nested_loop_invariant[OF lp, where P = ?P])
    show "?P (0, M0)" by (simp add: M0 zeros_shape)
  next
    fix i j a b assume "?P a" "mi_pair J self (lower et) calc sg perm i j a = Inr b"
    then show "?P b"
      using mi_pair_shape[of J self "lower et" calc sg perm i j "fst a" "snd a" "fst b" "snd b" d d]
      by simp
  qed
  moreover have "length M0 = d" by (simp add: M0 zeros_def)
  ultimately show ?thesis using al by auto
qed

lemma te_pair_shape:
  assumes "te_pair J self calc cs perm i j (c, xy, yx) = Inr (c', xy', yx')"
    and "tensor_shape a b (n_epo self) 4 xy" and "tensor_shape a b (n_epo self) 4 yx"
  shows "tensor_shape a b (n_epo self) 4 xy' \<and> tensor_shape a b (n_epo self) 4 yx'"
proof (cases "inter_brain self \<or> i \<noteq> j")
  case False
  with assms show ?thesis by (simp add: te_pair_def)
next
  case True
  from assms(1) True obtain s1 s2 where sl: "slices self i j = Inr (s1, s2)"
    by (cases "slices self i j") (auto simp: te_pair_def)
  with True have "te_pair J self calc cs perm i j (c, xy, yx) =
      ebind (estimate_it J calc self cs perm c s1 s2) (\<lambda>v.
          ebind (tensor_set xy i j v) (\<lambda>xy1.
            if inter_brain self
            then ebind (estimate_it J calc self cs perm (Suc c) s2 s1) (\<lambda>w.
                 ebind (tensor_set yx i j w) (\<lambda>yx1. Inr (Suc (Suc c), xy1, yx1)))
            else Inr (Suc c, xy1, yx)))"
    by (simp add: te_pair_def)
  with assms(1) obtain v xy1 where
    v: "estimate_it J calc self cs perm c s1 s2 = Inr v" and s1: "tensor_set xy i j v = Inr xy1"
    and rest: "(if inter_brain self
            then ebind (estimate_it J calc self cs perm (Suc c) s2 s1) (\<lambda>w.
                 ebind (tensor_set yx i j w) (\<lambda>yx1. Inr (Suc (Suc c), xy1, yx1)))
            else Inr (Suc c, xy1, yx)) = Inr (c', xy', yx')"
    by (auto simp: ebind_Inr_iff)
  have sh1: "tensor_shape a b (n_epo self) 4 xy1"
    by (rule tensor_set_shape[OF s1 assms(2) estimate_it_shape[OF v]])
  show ?thesis
  proof (cases "inter_brain self")
    case False
    with rest sh1 assms(3) show ?thesis by simp
  next
    case True
    with rest obtain w where w: "estimate_it J calc self cs perm (Suc c) s2 s1 = Inr w"
      and s2: "tensor_set yx i j w = Inr yx'" and "xy' = xy1"
      by (auto simp: ebind_Inr_iff)
    with sh1 tensor_set_shape[OF s2 assms(3) estimate_it_shape[OF w]] show ?thesis by simp
  qed
qed

lemma which_te_estimator_self:
  assumes "which_te_estimator self et = Inr (calc, self1)"
  shows "n_epo self1 = n_epo self" "n_chan self1 = n_chan self" "inter_brain self1 = inter_brain self"
    "scale_of_organisation self1 = scale_of_organisation self" "soi_groups self1 = soi_groups self"
  using assms by (auto simp: which_te_estimator_def split: if_splits)

lemma te_alloc_zeros:
  assumes "te_alloc self = Inr M0"
  shows "\<exists>d. M0 = zeros d d (n_epo self) 4 \<and> loop_range self = Inr d"
  using assms by (auto simp: te_alloc_def loop_range_def ebind_Inr_iff split: if_splits)

lemma compute_te_shape:
  assumes "compute_te J self et cs perm = Inr (XY, YX)"
  shows "\<exists>a. tensor_shape a a (n_epo self) 4 XY \<and> tensor_shape a a (n_epo self) 4 YX"
proof -
  from assms obtain calc self1 xy0 yx0 n c where
    w: "which_te_estimator self (lower et) = Inr (calc, self1)"
    and al: "te_alloc self1 = Inr xy0" "te_alloc self1 = Inr yx0"
    and lp: "for_each (\<lambda>i. for_each (te_pair J self1 calc cs perm i) [0..<n]) [0..<n] (0, xy0, yx0) = Inr (c, XY, YX)"
    by (auto simp: compute_te_def ebind_Inr_iff split: prod.splits)
  from te_alloc_zeros[OF al(1)] al obtain d where z: "xy0 = zeros d d (n_epo self1) 4" "yx0 = zeros d d (n_epo self1) 4"
    by auto
  let ?P = "\<lambda>st. tensor_shape d d (n_epo self1) 4 (fst (snd st)) \<and> tensor_shape d d (n_epo self1) 4 (snd (snd st))"
  have "?P (c, XY, YX)"
  proof (rule nested_loop_invariant[OF lp, where P = ?P])
    show "?P (0, xy0, yx0)" by (simp add: z zeros_shape)
  next
    fix i j a b assume "?P a" "te_pair J self1 calc cs perm i j a = Inr b"
    then show "?P b"
      using te_pair_shape[of J self1 calc cs perm i j "fst a" "fst (snd a)" "snd (snd a)" "fst b" "fst (snd b)" "snd (snd b)" d d]
      by simp
  qed
  then show ?thesis using which_te_estimator_self(1)[OF w] by auto
qed

lemma zeros_rows: "tensor_rows estimate_only (zeros a b n k)"
  by (simp add: tensor_rows_def estimate_only_def zeros_def list_all_iff)

lemma tensor_set_rows:
  assumes "tensor_set M i j v = Inr M1" and "tensor_rows P M" and "list_all P v"
  shows "tensor_rows P M1"
proof -
  from assms(1) have i: "i < length M" and M1: "M1 = M[i := (M ! i)[j := v]]"
    by (auto simp: tensor_set_def split: if_splits)
  have "list_all (list_all P) (M ! i)"
    using assms(2) i by (auto simp: tensor_rows_def list_all_length)
  then have "list_all (list_all P) ((M ! i)[j := v])"
    using assms(3) by (simp add: list_all_update)
  then show ?thesis using assms(2) unfolding M1 tensor_rows_def
    by (simp add: list_all_update)
qed

lemma tensor_get_rows:
  assumes "tensor_get M i j = Inr w" and "tensor_rows P M"
  shows "list_all P w"
  using assms by (auto simp: tensor_get_def tensor_rows_def list_all_length split: if_splits)

lemma tensor_rows_nth:
  assumes "tensor_rows P M" and "i < length M" and "j < length (M ! i)" and "e < length (M ! i ! j)"
  shows "P (M ! i ! j ! e)"
  using assms by (auto simp: tensor_rows_def list_all_length)

lemma cell_shape_estimate_only:
  assumes "cell_shape n 1 v"
  shows "list_all estimate_only v"
  using assms by (auto simp: cell_shape_def estimate_only_def list_all_iff)

lemma run_calculator_estimate_only:
  assumes "run_calculator J calc ip False perm c epo_i X Y = Inr r"
  shows "estimate_only r"
  using assms unfolding run_calculator_def
  by (auto simp: ebind_Inr_iff estimate_only_def less_Suc_eq nth_Cons')

lemma estimate_epoch_estimate_only:
  assumes "estimate_epoch J calc self False perm c s1 s2 epo_i = Inr r"
  shows "estimate_only r"
proof -
  from assms obtain X Y where
    r: "(case initialise_parameter self of
            Some (Base b) \<Rightarrow>
              (if b \<noteq> 0 then Inl TypeError
               else run_calculator J calc None False perm c epo_i X Y)
          | other \<Rightarrow> run_calculator J calc other False perm c epo_i X Y) = Inr r"
    unfolding estimate_epoch_def Let_def ebind_Inr_iff by (auto simp: split_beta)
  show ?thesis
  proof (cases "initialise_parameter self")
    case None
    with r show ?thesis by (simp add: run_calculator_estimate_only)
  next
    case (Some ip)
    with r show ?thesis
      by (cases ip) (auto simp: run_calculator_estimate_only split: if_splits)
  qed
qed

lemma estimate_it_estimate_only:
  assumes "estimate_it J calc self False perm c s1 s2 = Inr v"
  shows "list_all estimate_only v"
proof -
  from map_err_Inr[OF assms[unfolded estimate_it_def]]
  show ?thesis
    by (auto simp: list_all_iff dest: estimate_epoch_estimate_only)
qed

lemma mi_pair_rows:
  assumes "mi_pair J self et calc False perm i j (c, M) = Inr (c', M')"
    and "tensor_rows estimate_only M"
  shows "tensor_rows estimate_only M'"
proof (cases "inter_brain self \<or> i \<noteq> j")
  case False
  with assms show ?thesis by (simp add: mi_pair_def)
next
  case True
  let ?est = "\<lambda>s1 s2. if et = ''histogram'' then mi_hist self s1 s2
                 else if et = ''symbolic'' then mi_symb self s1 s2 1 3
                 else (case calc of
                         Some k \<Rightarrow> estimate_it J k self False perm c s1 s2
                       | None \<Rightarrow> Inl AttributeError)"
  from assms(1) True obtain s1 s2 where sl: "slices self i j = Inr (s1, s2)"
    by (cases "slices self i j") (auto simp: mi_pair_def)
  with True have "mi_pair J self et calc False perm i j (c, M) =
      ebind (?est s1 s2) (\<lambda>v.
          ebind (tensor_set M i j v) (\<lambda>M1.
            if \<not> inter_brain self
            then ebind (tensor_get M1 i j) (\<lambda>w.
                 ebind (tensor_set M1 j i w) (\<lambda>M2. Inr (Suc c, M2)))
            else Inr (Suc c, M1)))"
    by (simp add: mi_pair_def)
  with assms(1) obtain v M1 where
    v: "?est s1 s2 = Inr v" and s1: "tensor_set M i j v = Inr M1"
    and rest: "(if \<not> inter_brain self
            then ebind (tensor_get M1 i j) (\<lambda>w.
                 ebind (tensor_set M1 j i w) (\<lambda>M2. Inr (Suc c, M2)))
            else Inr (Suc c, M1)) = Inr (c', M')"
    by (auto simp: ebind_Inr_iff)
  have cv: "list_all estimate_only v"
  proof (cases "et = ''histogram''")
    case True
    with v cell_shape_estimate_only[OF mi_hist_shape[of self s1 s2 v]] show ?thesis by simp
  next
    case nh: False
    show ?thesis
    proof (cases "et = ''symbolic''")
      case True
      with v nh cell_shape_estimate_only[OF mi_symb_shape[of self s1 s2 1 3 v]] show ?thesis by simp
    next
      case False
      with v nh obtain k where "estimate_it J k self False perm c s1 s2 = Inr v"
        by (cases calc) auto
      then show ?thesis by (rule estimate_it_estimate_only)
    qed
  qed
  have sh1: "tensor_rows estimate_only M1"
    by (rule tensor_set_rows[OF s1 assms(2) cv])
  show ?thesis
  proof (cases "inter_brain self")
    case True
    with rest sh1 show ?thesis by simp
  next
    case False
    with rest obtain w where g: "tensor_get M1 i j = Inr w" and s2: "tensor_set M1 j i w = Inr M'"
      by (auto simp: ebind_Inr_iff)
    from tensor_set_rows[OF s2 sh1 tensor_get_rows[OF g sh1]] show ?thesis .
  qed
qed

lemma which_mi_estimator_disabled:
  assumes "which_mi_estimator et False = Inr (calc, sg)"
  shows "sg = False"
  using assms by (auto simp: which_mi_estimator_def split: if_splits)

lemma compute_mi_rows:
  assumes "compute_mi J self et False perm = Inr M"
  shows "tensor_rows estimate_only M"
proof -
  from assms obtain calc sg M0 n c where
    w: "which_mi_estimator (lower et) False = Inr (calc, sg)"
    and al: "mi_alloc self (lower et) = Inr M0"
    and lp: "for_each (\<lambda>i. for_each (mi_pair J self (lower et) calc sg perm i) [0..<n]) [0..<n] (0, M0) = Inr (c, M)"
    by (auto simp: compute_mi_def ebind_Inr_iff split: prod.splits)
  from which_mi_estimator_disabled[OF w] have sg: "sg = False" .
  from mi_alloc_zeros[OF al] obtain d k where M0: "M0 = zeros d d (n_epo self) k"
    by blast
  let ?P = "\<lambda>st. tensor_rows estimate_only (snd st)"
  have "?P (c, M)"
  proof (rule nested_loop_invariant[OF lp, where P = ?P])
    show "?P (0, M0)" by (simp add: M0 zeros_rows)
  next
    fix i j a b assume "?P a" "mi_pair J self (lower et) calc sg perm i j a = Inr b"
    then show "?P b"
      using mi_pair_rows[of J self "lower et" calc perm i j "fst a" "snd a" "fst b" "snd b"] sg
      by simp
  qed
  then show ?thesis by simp
qed

lemma te_pair_rows:
  assumes "te_pair J self calc False perm i j (c, xy, yx) = Inr (c', xy', yx')"
    and "tensor_rows estimate_only xy" and "tensor_rows estimate_only yx"
  shows "tensor_rows estimate_only xy' \<and> tensor_rows estimate_only yx'"
proof (cases "inter_brain self \<or> i \<noteq> j")
  case False
  with assms show ?thesis by (simp add: te_pair_def)
next
  case True
  from assms(1) True obtain s1 s2 where sl: "slices self i j = Inr (s1, s2)"
    by (cases "slices self i j") (auto simp: te_pair_def)
  with True have "te_pair J self calc False perm i j (c, xy, yx) =
      ebind (estimate_it J calc self False perm c s1 s2) (\<lambda>v.
          ebind (tensor_set xy i j v) (\<lambda>xy1.
            if inter_brain self
            then ebind (estimate_it J calc self False perm (Suc c) s2 s1) (\<lambda>w.
                 ebind (tensor_set yx i j w) (\<lambda>yx1. Inr (Suc (Suc c), xy1, yx1)))
            else Inr (Suc c, xy1, yx)))"
    by (simp add: te_pair_def)
  with assms(1) obtain v xy1 where
    v: "estimate_it J calc self False perm c s1 s2 = Inr v" and s1: "tensor_set xy i j v = Inr xy1"
    and rest: "(if inter_brain self
            then ebind (estimate_it J calc self False perm (Suc c) s2 s1) (\<lambda>w.
                 ebind (tensor_set yx i j w) (\<lambda>yx1. Inr (Suc (Suc c), xy1, yx1)))
            else Inr (Suc c, xy1, yx)) = Inr (c', xy', yx')"
    by (auto simp: ebind_Inr_iff)
  have sh1: "tensor_rows estimate_only xy1"
    by (rule tensor_set_rows[OF s1 assms(2) estimate_it_estimate_only[OF v]])
  show ?thesis
  proof (cases "inter_brain self")
    case False
    with rest sh1 assms(3) show ?thesis by simp
  next
    case True
    with rest obtain w where w: "estimate_it J calc self False perm (Suc c) s2 s1 = Inr w"
      and s2: "tensor_set yx i j w = Inr yx'" and "xy' = xy1"
      by (auto simp: ebind_Inr_iff)
    with sh1 tensor_set_rows[OF s2 assms(3) estimate_it_estimate_only[OF w]] show ?thesis by simp
  qed
qed

lemma compute_te_rows:
  assumes "compute_te J self et False perm = Inr (XY, YX)"
  shows "tensor_rows estimate_only XY \<and> tensor_rows estimate_only YX"
proof -
  from assms obtain calc self1 xy0 yx0 n c where
    w: "which_te_estimator self (lower et) = Inr (calc, self1)"
    and al: "te_alloc self1 = Inr xy0" "te_alloc self1 = Inr yx0"
    and lp: "for_each (\<lambda>i. for_each (te_pair J self1 calc False perm i) [0..<n]) [0..<n] (0, xy0, yx0) = Inr (c, XY, YX)"
    by (auto simp: compute_te_def ebind_Inr_iff split: prod.splits)
  from te_alloc_zeros[OF al(1)] al obtain d where z: "xy0 = zeros d d (n_epo self1) 4" "yx0 = zeros d d (n_epo self1) 4"
    by auto
  let ?P = "\<lambda>st. tensor_rows estimate_only (fst (snd st)) \<and> tensor_rows estimate_only (snd (snd st))"
  have "?P (c, XY, YX)"
  proof (rule nested_loop_invariant[OF lp, where P = ?P])
    show "?P (0, xy0, yx0)" by (simp add: z zeros_rows)
  next
    fix i j a b assume "?P a" "te_pair J self1 calc False perm i j a = Inr b"
    then show "?P b"
      using te_pair_rows[of J self1 calc perm i j "fst a" "fst (snd a)" "snd (snd a)" "fst b" "fst (snd b)" "snd (snd b)"]
      by simp
  qed
  then show ?thesis by auto
qed

text \<open>
  Claim C4, as amended. The statistic axis of the tensor \<open>compute_mi\<close> returns has
  length 1 exactly for the histogram and symbolic estimators and length 4 for every
  other estimator; both tensors of \<open>compute_te\<close> have length 4 for every estimator.
  Neither depends on \<open>calc_sigstats\<close>: with significance testing disabled the
  calculator-based estimators still return four statistics, of which only the first,
  the estimate, is written; the other three are zero in every entry.
\<close>

theorem statistic_dimension:
  "(compute_mi J self estimator_type calc_sigstats perm = Inr M
      \<and> i < length M \<and> j < length (M ! i) \<and> e < length (M ! i ! j)
    \<longrightarrow> length (M ! i ! j ! e) =
          (if lower estimator_type = ''histogram'' \<or> lower estimator_type = ''symbolic'' then 1 else 4)
      \<and> (\<not> calc_sigstats \<longrightarrow> (\<forall>k<length (M ! i ! j ! e). 0 < k \<longrightarrow> M ! i ! j ! e ! k = 0)))
   \<and> (compute_te J self estimator_type calc_sigstats perm = Inr (XY, YX)
      \<and> i < length XY \<and> j < length (XY ! i) \<and> e < length (XY ! i ! j)
    \<longrightarrow> length (XY ! i ! j ! e) = 4
      \<and> (\<not> calc_sigstats \<longrightarrow> (\<forall>k<4. 0 < k \<longrightarrow> XY ! i ! j ! e ! k = 0)))
   \<and> (compute_te J self estimator_type calc_sigstats perm = Inr (XY, YX)
      \<and> i < length YX \<and> j < length (YX ! i) \<and> e < length (YX ! i ! j)
    \<longrightarrow> length (YX ! i ! j ! e) = 4
      \<and> (\<not> calc_sigstats \<longrightarrow> (\<forall>k<4. 0 < k \<longrightarrow> YX ! i ! j ! e ! k = 0)))"
proof (intro conjI impI)
  assume h: "compute_mi J self estimator_type calc_sigstats perm = Inr M
      \<and> i < length M \<and> j < length (M ! i) \<and> e < length (M ! i ! j)"
  from compute_mi_shape[of J self estimator_type calc_sigstats perm M] h
  obtain a where "tensor_shape a a (n_epo self) (stat_len (lower estimator_type)) M" by blast
  from tensor_shape_nth(2)[OF this] h
  show "length (M ! i ! j ! e) =
          (if lower estimator_type = ''histogram'' \<or> lower estimator_type = ''symbolic'' then 1 else 4)"
    by (simp add: stat_len_def)
  assume "\<not> calc_sigstats"
  with h have "tensor_rows estimate_only M" using compute_mi_rows[of J self estimator_type perm M] by simp
  from tensor_rows_nth[OF this] h
  show "\<forall>k<length (M ! i ! j ! e). 0 < k \<longrightarrow> M ! i ! j ! e ! k = 0"
    by (simp add: estimate_only_def)
next
  assume h: "compute_te J self estimator_type calc_sigstats perm = Inr (XY, YX)
      \<and> i < length XY \<and> j < length (XY ! i) \<and> e < length (XY ! i ! j)"
  from compute_te_shape[of J self estimator_type calc_sigstats perm XY YX] h
  obtain a where "tensor_shape a a (n_epo self) 4 XY" by blast
  from tensor_shape_nth(2)[OF this] h show len: "length (XY ! i ! j ! e) = 4" by simp
  assume "\<not> calc_sigstats"
  with h have "tensor_rows estimate_only XY" using compute_te_rows[of J self estimator_type perm XY YX] by simp
  from tensor_rows_nth[OF this] h len
  show "\<forall>k<4. 0 < k \<longrightarrow> XY ! i ! j ! e ! k = 0"
    by (simp add: estimate_only_def)
next
  assume h: "compute_te J self estimator_type calc_sigstats perm = Inr (XY, YX)
      \<and> i < length YX \<and> j < length (YX ! i) \<and> e < length (YX ! i ! j)"
  from compute_te_shape[of J self estimator_type calc_sigstats perm XY YX] h
  obtain a where "tensor_shape a a (n_epo self) 4 YX" by blast
  from tensor_shape_nth(2)[OF this] h show len: "length (YX ! i ! j ! e) = 4" by simp
  assume "\<not> calc_sigstats"
  with h have "tensor_rows estimate_only YX" using compute_te_rows[of J self estimator_type perm XY YX] by simp
  from tensor_rows_nth[OF this] h len
  show "\<forall>k<4. 0 < k \<longrightarrow> YX ! i ! j ! e ! k = 0"
    by (simp add: estimate_only_def)
qed

lemma roi_setter_example_grouped:
  "roi_setter example_intra [PList [PList [PInt 0, PInt 1]], PList [PList [PInt 0, PInt 1]]]
     = Inr example_grouped"
  by (simp add: roi_setter_def roi_assign_def roi_subset_def convert_names_to_indices_def
      example_grouped_def example_intra_def example_names_def group_lengths_def nth_err_def Let_def)

lemma compute_te_example_inter:
  "compute_te example_jidt example_inter ''kernel'' False 100 =
     Inr ([[[[ln 2, 0, 0, 0]], [[3 * ln 2, 0, 0, 0]]], [[[5 * ln 2, 0, 0, 0]], [[7 * ln 2, 0, 0, 0]]]],
          [[[[2 * ln 2, 0, 0, 0]], [[4 * ln 2, 0, 0, 0]]], [[[6 * ln 2, 0, 0, 0]], [[8 * ln 2, 0, 0, 0]]]])"
  by (simp add: compute_te_def lower_kernel which_te_estimator_def te_alloc_def loop_range_def
      example_inter_def example_jidt_def example_data_def example_data2_def zeros_def upt_2 te_pair_def slices_def
      channel_def nth_err_def estimate_it_def estimate_epoch_def run_calculator_def tensor_set_def tensor_get_def
      eval_nat_numeral)

theorem statistic_dimension_counterexample:
  "compute_mi example_jidt example_intra ''gaussian'' False 100 =
     Inr [[[[0, 0, 0, 0]], [[2 * ln 2, 0, 0, 0]]], [[[2 * ln 2, 0, 0, 0]], [[0, 0, 0, 0]]]]
   \<and> length ([[[[0, 0, 0, 0]], [[2 * ln 2, 0, 0, 0]]], [[[2 * ln 2, 0, 0, 0]], [[0, 0, 0, 0::real]]]] ! 0 ! 1 ! 0) \<noteq> 1"
  using compute_mi_example_intra by simp

theorem statistic_dimension_witness:
  "compute_mi example_jidt example_intra ''gaussian'' False 100 =
     Inr [[[[0, 0, 0, 0]], [[2 * ln 2, 0, 0, 0]]], [[[2 * ln 2, 0, 0, 0]], [[0, 0, 0, 0]]]]
   \<and> compute_te example_jidt example_inter ''kernel'' False 100 =
     Inr ([[[[ln 2, 0, 0, 0]], [[3 * ln 2, 0, 0, 0]]], [[[5 * ln 2, 0, 0, 0]], [[7 * ln 2, 0, 0, 0]]]],
          [[[[2 * ln 2, 0, 0, 0]], [[4 * ln 2, 0, 0, 0]]], [[[6 * ln 2, 0, 0, 0]], [[8 * ln 2, 0, 0, 0]]]])
   \<and> length ([[[[0, 0, 0, 0]], [[2 * ln 2, 0, 0, 0]]], [[[2 * ln 2, 0, 0, 0]], [[0, 0, 0, 0::real]]]] ! 0 ! 1 ! 0) = 4
   \<and> length ([[[[ln 2, 0, 0, 0]], [[3 * ln 2, 0, 0, 0]]], [[[5 * ln 2, 0, 0, 0]], [[7 * ln 2, 0, 0, 0::real]]]] ! 0 ! 1 ! 0) = 4
   \<and> length ([[[[2 * ln 2, 0, 0, 0]], [[4 * ln 2, 0, 0, 0]]], [[[6 * ln 2, 0, 0, 0]], [[8 * ln 2, 0, 0, 0::real]]]] ! 0 ! 1 ! 0) = 4
   \<and> [[[[0, 0, 0, 0]], [[2 * ln 2, 0, 0, 0]]], [[[2 * ln 2, 0, 0, 0]], [[0, 0, 0, 0::real]]]] ! 0 ! 1 ! 0 ! 3 = 0
   \<and> [[[[ln 2, 0, 0, 0]], [[3 * ln 2, 0, 0, 0]]], [[[5 * ln 2, 0, 0, 0]], [[7 * ln 2, 0, 0, 0::real]]]] ! 0 ! 1 ! 0 ! 3 = 0
   \<and> [[[[2 * ln 2, 0, 0, 0]], [[4 * ln 2, 0, 0, 0]]], [[[6 * ln 2, 0, 0, 0]], [[8 * ln 2, 0, 0, 0::real]]]] ! 0 ! 1 ! 0 ! 3 = 0"
  using statistic_dimension[of example_jidt example_intra "''gaussian''" False 100
      "[[[[0, 0, 0, 0]], [[2 * ln 2, 0, 0, 0]]], [[[2 * ln 2, 0, 0, 0]], [[0, 0, 0, 0]]]]" 0 1 0]
    statistic_dimension[of example_jidt example_inter "''kernel''" False 100 _ 0 1 0
      "[[[[ln 2, 0, 0, 0]], [[3 * ln 2, 0, 0, 0]]], [[[5 * ln 2, 0, 0, 0]], [[7 * ln 2, 0, 0, 0]]]]"
      "[[[[2 * ln 2, 0, 0, 0]], [[4 * ln 2, 0, 0, 0]]], [[[6 * ln 2, 0, 0, 0]], [[8 * ln 2, 0, 0, 0]]]]"]
    compute_mi_example_intra compute_te_example_inter
  by simp

lemma tensor_shape_dims:
  assumes "tensor_shape a b n k M"
  shows "length M = a \<and> list_all (\<lambda>row. length row = b) M"
  using assms by (auto simp: tensor_shape_def list_all_iff)

text \<open>
  Claim C10, as amended. With a grouped ROI active (scale greater than 1) and the histogram or
  symbolic estimator, \<open>compute_mi\<close> allocates its tensor with the channel count in the
  first two dimensions, whatever the group count, while the loop runs over the group
  count; a tensor it returns is \<open>n_chan\<close> by \<open>n_chan\<close>, which differs from the
  number of groups whenever the two counts differ.
\<close>

theorem mi_alloc_grouped_entropy_estimators:
  assumes "1 < scale_of_organisation self"
    and "lower estimator_type = ''histogram'' \<or> lower estimator_type = ''symbolic''"
  shows "mi_alloc self (lower estimator_type) = Inr (zeros (n_chan self) (n_chan self) (n_epo self) 1)
       \<and> loop_range self = get_soi_groups self
       \<and> (compute_mi J self estimator_type calc_sigstats perm = Inr M
            \<longrightarrow> length M = n_chan self \<and> list_all (\<lambda>row. length row = n_chan self) M
              \<and> (\<exists>g. soi_groups self = Some g \<and> (g \<noteq> n_chan self \<longrightarrow> length M \<noteq> g)))"
proof (intro conjI impI)
  show al: "mi_alloc self (lower estimator_type) = Inr (zeros (n_chan self) (n_chan self) (n_epo self) 1)"
    using assms(2) by (auto simp: mi_alloc_def)
  show lr: "loop_range self = get_soi_groups self"
    using assms(1) by (simp add: loop_range_def)
  assume r: "compute_mi J self estimator_type calc_sigstats perm = Inr M"
  from compute_mi_shape[OF r] al
  have "tensor_shape (n_chan self) (n_chan self) (n_epo self) (stat_len (lower estimator_type)) M"
    by (auto simp: zeros_def)
  from tensor_shape_dims[OF this]
  show len: "length M = n_chan self" and "list_all (\<lambda>row. length row = n_chan self) M" by simp_all
  from r obtain n where "loop_range self = Inr n"
    by (auto simp: compute_mi_def ebind_Inr_iff split: prod.splits)
  with lr obtain g where "soi_groups self = Some g"
    by (auto simp: get_soi_groups_def split: option.splits)
  with len show "\<exists>g. soi_groups self = Some g \<and> (g \<noteq> n_chan self \<longrightarrow> length M \<noteq> g)" by simp
qed

lemma compute_mi_example_grouped:
  "compute_mi example_jidt example_grouped ''histogram'' False 100 = Inr [[[[0]], [[0]]], [[[0]], [[0]]]]"
  by (simp add: compute_mi_def lower_histogram which_mi_estimator_def mi_alloc_def loop_range_def
      get_soi_groups_def example_grouped_def example_intra_def zeros_def mi_pair_def eval_nat_numeral)

theorem mi_alloc_grouped_entropy_estimators_witness:
  "1 < scale_of_organisation example_grouped
   \<and> lower ''histogram'' = ''histogram''
   \<and> compute_mi example_jidt example_grouped ''histogram'' False 100 = Inr [[[[0]], [[0]]], [[[0]], [[0]]]]
   \<and> loop_range example_grouped = Inr 1
   \<and> length [[[[0]], [[0]]], [[[0]], [[0::real]]]] = n_chan example_grouped
   \<and> soi_groups example_grouped = Some 1
   \<and> length [[[[0]], [[0]]], [[[0]], [[0::real]]]] \<noteq> 1"
proof -
  have a: "1 < scale_of_organisation example_grouped"
    by (simp add: example_grouped_def example_intra_def)
  have b: "lower ''histogram'' = ''histogram'' \<or> lower ''histogram'' = ''symbolic''"
    by (simp add: lower_histogram)
  from mi_alloc_grouped_entropy_estimators[OF a b, of example_jidt False 100 "[[[[0]], [[0]]], [[[0]], [[0]]]]"]
    compute_mi_example_grouped a
  show ?thesis
    by (simp add: lower_histogram get_soi_groups_def example_grouped_def example_intra_def)
qed

lemma init_example_single:
  "init (Arr [Arr [Num 1, Num 2, Num 4]]) (Arr [Arr [Num 1, Num 2, Num 4]]) (PList [PList [PStr ''C1'']]) False
     = Inr example_single"
  by (simp add: init_def check_data_def example_single_def ndim_def arange_def nth_err_def Let_def)

lemma roi_setter_example_single:
  "roi_setter example_single [PList [PList [PInt 0, PInt 0]], PList [PList [PInt 0, PInt 0]]]
     = Inr example_single_grouped"
  by (simp add: roi_setter_def roi_assign_def roi_subset_def convert_names_to_indices_def
      example_single_grouped_def example_single_def group_lengths_def nth_err_def Let_def)

text \<open>
  The two counts can coincide: with one channel and one group the tensor that
  \<open>compute_mi\<close> returns is 1 by 1, which is the number of groups.
\<close>

theorem grouped_dimensions_counterexample:
  "roi_setter example_single [PList [PList [PInt 0, PInt 0]], PList [PList [PInt 0, PInt 0]]]
     = Inr example_single_grouped
   \<and> 1 < scale_of_organisation example_single_grouped
   \<and> soi_groups example_single_grouped = Some 1
   \<and> compute_mi example_jidt example_single_grouped ''histogram'' False 100 = Inr [[[[0]]]]
   \<and> length [[[[0::real]]]] = 1
   \<and> length ([[[[0::real]]]] ! 0) = 1"
  using roi_setter_example_single
  by (simp add: compute_mi_def lower_histogram which_mi_estimator_def mi_alloc_def loop_range_def
      get_soi_groups_def example_single_grouped_def example_single_def zeros_def mi_pair_def)

section \<open>Transfer entropy\<close>

lemma for_each_upt_from:
  assumes "for_each body [m..<n] s = Inr t" and "m \<le> n" and "P m s"
    and "\<And>k a b. m \<le> k \<Longrightarrow> k < n \<Longrightarrow> P k a \<Longrightarrow> body k a = Inr b \<Longrightarrow> P (Suc k) b"
  shows "P n t"
  using assms
proof (induction "n - m" arbitrary: m s)
  case 0
  then show ?case by simp
next
  case (Suc d)
  then have lt: "m < n" by simp
  then have up: "[m..<n] = m # [Suc m..<n]" by (simp add: upt_conv_Cons)
  from Suc.prems(1) obtain u where u: "body m s = Inr u" and rest: "for_each body [Suc m..<n] u = Inr t"
    unfolding up by (auto simp: ebind_Inr_iff)
  have Pu: "P (Suc m) u" using Suc.prems(4)[OF _ lt Suc.prems(3) u] by simp
  have d: "d = n - Suc m" using Suc.hyps(2) by simp
  show ?case
  proof (rule Suc.hyps(1)[OF d rest _ Pu])
    show "Suc m \<le> n" using lt by simp
  next
    fix k a b assume "Suc m \<le> k" "k < n" "P k a" "body k a = Inr b"
    then show "P (Suc k) b" using Suc.prems(4)[of k a b] by simp
  qed
qed

lemma for_each_upt:
  assumes "for_each body [0..<n] s = Inr t" and "P 0 s"
    and "\<And>k a b. k < n \<Longrightarrow> P k a \<Longrightarrow> body k a = Inr b \<Longrightarrow> P (Suc k) b"
  shows "P n t"
  using for_each_upt_from[where P = P and m = 0, OF assms(1)] assms(2,3) by simp

lemma te_entry_cong:
  assumes "XY' ! a ! b = XY ! a ! b" and "YX' ! a ! b = YX ! a ! b"
  shows "te_entry J self calc cs perm n XY' YX' a b = te_entry J self calc cs perm n XY YX a b"
  using assms by (simp add: te_entry_def)

lemma te_pair_inter_step:
  assumes inter: "inter_brain self" and i: "i < n" and j: "j < n"
    and run: "te_pair J self calc cs perm i j st = Inr st'"
    and inv: "te_inv J self calc cs perm n i j st"
  shows "te_inv J self calc cs perm n i (Suc j) st'"
proof -
  obtain c XY YX where st: "st = (c, XY, YX)" by (cases st) auto
  obtain c' XY' YX' where st': "st' = (c', XY', YX')" by (cases st') auto
  from inv st have c: "c = 2 * (i * n + j)"
    and lx: "length XY = n" "\<And>a. a < n \<Longrightarrow> length (XY ! a) = n"
    and ly: "length YX = n" "\<And>a. a < n \<Longrightarrow> length (YX ! a) = n"
    and old: "\<And>a b. a < n \<Longrightarrow> b < n \<Longrightarrow> a < i \<or> (a = i \<and> b < j) \<Longrightarrow> te_entry J self calc cs perm n XY YX a b"
    by (auto simp: te_inv_def)
  from run inter st st' obtain s1 s2 where sl: "slices self i j = Inr (s1, s2)"
    by (cases "slices self i j") (auto simp: te_pair_def)
  with inter st have "te_pair J self calc cs perm i j st =
      ebind (estimate_it J calc self cs perm c s1 s2) (\<lambda>v.
          ebind (tensor_set XY i j v) (\<lambda>xy1.
                 ebind (estimate_it J calc self cs perm (Suc c) s2 s1) (\<lambda>w.
                 ebind (tensor_set YX i j w) (\<lambda>yx1. Inr (Suc (Suc c), xy1, yx1)))))"
    by (simp add: te_pair_def)
  with run st' obtain v w where
    v: "estimate_it J calc self cs perm c s1 s2 = Inr v" and sx: "tensor_set XY i j v = Inr XY'"
    and w: "estimate_it J calc self cs perm (Suc c) s2 s1 = Inr w" and sy: "tensor_set YX i j w = Inr YX'"
    and c': "c' = Suc (Suc c)"
    by (auto simp: ebind_Inr_iff)
  note A = tensor_set_nth[OF sx] and B = tensor_set_nth[OF sy]
  have lx': "length XY' = n" "\<And>a. a < n \<Longrightarrow> length (XY' ! a) = n"
    using A(1,2) lx by auto
  have ly': "length YX' = n" "\<And>a. a < n \<Longrightarrow> length (YX' ! a) = n"
    using B(1,2) ly by auto
  have nx: "XY' ! a ! b = (if a = i \<and> b = j then v else XY ! a ! b)" if "a < n" "b < n" for a b
    using A(3)[of a b] lx that by simp
  have ny: "YX' ! a ! b = (if a = i \<and> b = j then w else YX ! a ! b)" if "a < n" "b < n" for a b
    using B(3)[of a b] ly that by simp
  have new: "te_entry J self calc cs perm n XY' YX' i j"
    using sl v w c nx[OF i j] ny[OF i j] by (simp add: te_entry_def)
  have ent: "te_entry J self calc cs perm n XY' YX' a b"
    if ab: "a < n" "b < n" and lex: "a < i \<or> (a = i \<and> b < Suc j)" for a b
  proof (cases "a = i \<and> b = j")
    case True
    with new show ?thesis by simp
  next
    case False
    with lex have before: "a < i \<or> (a = i \<and> b < j)" by auto
    from False have "XY' ! a ! b = XY ! a ! b" "YX' ! a ! b = YX ! a ! b"
      using nx[OF ab] ny[OF ab] by auto
    from te_entry_cong[OF this] old[OF ab before] show ?thesis by simp
  qed
  have "c' = 2 * (i * n + Suc j)" using c c' by simp
  with lx' ly' ent show ?thesis unfolding st' te_inv_def by simp
qed

lemma te_inv_row_end:
  "te_inv J self calc cs perm n i n st = te_inv J self calc cs perm n (Suc i) 0 st"
proof -
  obtain c XY YX where st: "st = (c, XY, YX)" by (cases st) auto
  have "\<And>a b. b < n \<Longrightarrow> (a < i \<or> (a = i \<and> b < n)) = (a < Suc i \<or> (a = Suc i \<and> b < 0))"
    by auto
  then show ?thesis unfolding st te_inv_def by (simp add: algebra_simps cong: conj_cong)
qed


lemma te_loop_inter:
  assumes inter: "inter_brain self"
    and run: "for_each (\<lambda>i. for_each (te_pair J self calc cs perm i) [0..<n]) [0..<n]
                (0, zeros n n e 4, zeros n n e 4) = Inr st"
  shows "te_inv J self calc cs perm n n 0 st"
proof (rule for_each_upt[OF run, where P = "\<lambda>i. te_inv J self calc cs perm n i 0"])
  show "te_inv J self calc cs perm n 0 0 (0, zeros n n e 4, zeros n n e 4)"
    by (simp add: te_inv_def zeros_def)
next
  fix i a b
  assume i: "i < n" and Pa: "te_inv J self calc cs perm n i 0 a"
    and row: "for_each (te_pair J self calc cs perm i) [0..<n] a = Inr b"
  have "te_inv J self calc cs perm n i n b"
  proof (rule for_each_upt[OF row, where P = "\<lambda>j. te_inv J self calc cs perm n i j"])
    show "te_inv J self calc cs perm n i 0 a" by (rule Pa)
  next
    fix j x y
    assume "j < n" "te_inv J self calc cs perm n i j x" "te_pair J self calc cs perm i j x = Inr y"
    then show "te_inv J self calc cs perm n i (Suc j) y"
      using te_pair_inter_step[OF inter i] by blast
  qed
  then show "te_inv J self calc cs perm n (Suc i) 0 b" by (simp add: te_inv_row_end)
qed

lemma te_pair_intra_yx:
  assumes "\<not> inter_brain self" and "te_pair J self calc cs perm i j st = Inr st'"
  shows "snd (snd st') = snd (snd st)"
proof -
  obtain c XY YX where st: "st = (c, XY, YX)" by (cases st) auto
  show ?thesis
  proof (cases "i = j")
    case True
    with assms st show ?thesis by (simp add: te_pair_def)
  next
    case False
    from assms False st obtain s1 s2 where sl: "slices self i j = Inr (s1, s2)"
      by (cases "slices self i j") (auto simp: te_pair_def)
    with assms(1) False st have "te_pair J self calc cs perm i j st =
      ebind (estimate_it J calc self cs perm c s1 s2) (\<lambda>v.
          ebind (tensor_set XY i j v) (\<lambda>xy1. Inr (Suc c, xy1, YX)))"
      by (simp add: te_pair_def)
    with assms(2) have "ebind (estimate_it J calc self cs perm c s1 s2) (\<lambda>v.
          ebind (tensor_set XY i j v) (\<lambda>xy1. Inr (Suc c, xy1, YX))) = Inr st'"
      by simp
    then show ?thesis using st by (auto simp: ebind_Inr_iff)
  qed
qed

lemma te_loop_intra:
  assumes "\<not> inter_brain self"
    and run: "for_each (\<lambda>i. for_each (te_pair J self calc cs perm i) js) is (c0, xy0, yx0) = Inr (c, XY, YX)"
  shows "YX = yx0"
proof -
  have "snd (snd (c, XY, YX)) = yx0"
    by (rule nested_loop_invariant[OF run, where P = "\<lambda>st. snd (snd st) = yx0"])
       (use te_pair_intra_yx[OF assms(1)] in auto)
  then show ?thesis by simp
qed

lemma matrix_set_nth:
  assumes "matrix_set M i j v = Inr M1"
  shows "length M1 = length M" and "a < length M \<Longrightarrow> length (M1 ! a) = length (M ! a)"
    and "a < length M \<Longrightarrow> b < length (M ! a) \<Longrightarrow> M1 ! a ! b = (if a = i \<and> b = j then v else M ! a ! b)"
  using assms by (auto simp: matrix_set_def nth_list_update split: if_splits)

lemma legacy_te_entry_cong:
  assumes "XY' ! a ! b = XY ! a ! b" and "YX' ! a ! b = YX ! a ! b"
  shows "legacy_te_entry f d1 d2 ep n XY' YX' a b = legacy_te_entry f d1 d2 ep n XY YX a b"
  using assms by (simp add: legacy_te_entry_def)

lemma legacy_te_pair_inter_step:
  assumes i: "i < n" and j: "j < n"
    and run: "legacy_te_pair f d1 d2 ep True i j st = Inr st'"
    and inv: "legacy_te_inv f d1 d2 ep n i j st"
  shows "legacy_te_inv f d1 d2 ep n i (Suc j) st'"
proof -
  obtain c XY YX where st: "st = (c, XY, YX)" by (cases st) auto
  obtain c' XY' YX' where st': "st' = (c', XY', YX')" by (cases st') auto
  from inv st have c: "c = 2 * (i * n + j)"
    and lx: "length XY = n" "\<And>a. a < n \<Longrightarrow> length (XY ! a) = n"
    and ly: "length YX = n" "\<And>a. a < n \<Longrightarrow> length (YX ! a) = n"
    and old: "\<And>a b. a < n \<Longrightarrow> b < n \<Longrightarrow> a < i \<or> (a = i \<and> b < j) \<Longrightarrow> legacy_te_entry f d1 d2 ep n XY YX a b"
    by (auto simp: legacy_te_inv_def)
  from run st st' obtain s1 s2 where sl: "legacy_slices d1 d2 ep i j = Inr (s1, s2)"
    by (cases "legacy_slices d1 d2 ep i j") (auto simp: legacy_te_pair_def)
  with st have "legacy_te_pair f d1 d2 ep True i j st =
      ebind (f c s1 s2 ep) (\<lambda>v.
          ebind (matrix_set XY i j v) (\<lambda>xy1.
                 ebind (f (Suc c) s2 s1 ep) (\<lambda>w.
                 ebind (matrix_set YX i j w) (\<lambda>yx1. Inr (Suc (Suc c), xy1, yx1)))))"
    by (simp add: legacy_te_pair_def)
  with run st' obtain v w where
    v: "f c s1 s2 ep = Inr v" and sx: "matrix_set XY i j v = Inr XY'"
    and w: "f (Suc c) s2 s1 ep = Inr w" and sy: "matrix_set YX i j w = Inr YX'"
    and c': "c' = Suc (Suc c)"
    by (auto simp: ebind_Inr_iff)
  note A = matrix_set_nth[OF sx] and B = matrix_set_nth[OF sy]
  have lx': "length XY' = n" "\<And>a. a < n \<Longrightarrow> length (XY' ! a) = n"
    using A(1,2) lx by auto
  have ly': "length YX' = n" "\<And>a. a < n \<Longrightarrow> length (YX' ! a) = n"
    using B(1,2) ly by auto
  have nx: "XY' ! a ! b = (if a = i \<and> b = j then v else XY ! a ! b)" if "a < n" "b < n" for a b
    using A(3)[of a b] lx that by simp
  have ny: "YX' ! a ! b = (if a = i \<and> b = j then w else YX ! a ! b)" if "a < n" "b < n" for a b
    using B(3)[of a b] ly that by simp
  have new: "legacy_te_entry f d1 d2 ep n XY' YX' i j"
    using sl v w c nx[OF i j] ny[OF i j] by (simp add: legacy_te_entry_def)
  have ent: "legacy_te_entry f d1 d2 ep n XY' YX' a b"
    if ab: "a < n" "b < n" and lex: "a < i \<or> (a = i \<and> b < Suc j)" for a b
  proof (cases "a = i \<and> b = j")
    case True
    with new show ?thesis by simp
  next
    case False
    with lex have before: "a < i \<or> (a = i \<and> b < j)" by auto
    from False have "XY' ! a ! b = XY ! a ! b" "YX' ! a ! b = YX ! a ! b"
      using nx[OF ab] ny[OF ab] by auto
    from legacy_te_entry_cong[OF this] old[OF ab before] show ?thesis by simp
  qed
  have "c' = 2 * (i * n + Suc j)" using c c' by simp
  with lx' ly' ent show ?thesis unfolding st' legacy_te_inv_def by simp
qed

lemma legacy_te_inv_row_end:
  "legacy_te_inv f d1 d2 ep n i n st = legacy_te_inv f d1 d2 ep n (Suc i) 0 st"
proof -
  obtain c XY YX where st: "st = (c, XY, YX)" by (cases st) auto
  have "\<And>a b. b < n \<Longrightarrow> (a < i \<or> (a = i \<and> b < n)) = (a < Suc i \<or> (a = Suc i \<and> b < 0))"
    by auto
  then show ?thesis unfolding st legacy_te_inv_def by (simp add: algebra_simps cong: conj_cong)
qed

lemma legacy_te_loop_inter:
  assumes run: "for_each (\<lambda>i. for_each (legacy_te_pair f d1 d2 ep True i) [0..<n]) [0..<n]
                (0, zeros2 n n, zeros2 n n) = Inr st"
  shows "legacy_te_inv f d1 d2 ep n n 0 st"
proof (rule for_each_upt[OF run, where P = "\<lambda>i. legacy_te_inv f d1 d2 ep n i 0"])
  show "legacy_te_inv f d1 d2 ep n 0 0 (0, zeros2 n n, zeros2 n n)"
    by (simp add: legacy_te_inv_def zeros2_def)
next
  fix i a b
  assume i: "i < n" and Pa: "legacy_te_inv f d1 d2 ep n i 0 a"
    and row: "for_each (legacy_te_pair f d1 d2 ep True i) [0..<n] a = Inr b"
  have "legacy_te_inv f d1 d2 ep n i n b"
  proof (rule for_each_upt[OF row, where P = "\<lambda>j. legacy_te_inv f d1 d2 ep n i j"])
    show "legacy_te_inv f d1 d2 ep n i 0 a" by (rule Pa)
  next
    fix j x y
    assume "j < n" "legacy_te_inv f d1 d2 ep n i j x" "legacy_te_pair f d1 d2 ep True i j x = Inr y"
    then show "legacy_te_inv f d1 d2 ep n i (Suc j) y"
      using legacy_te_pair_inter_step[OF i] by blast
  qed
  then show "legacy_te_inv f d1 d2 ep n (Suc i) 0 b" by (simp add: legacy_te_inv_row_end)
qed

lemma legacy_te_pair_intra_yx:
  assumes "legacy_te_pair f d1 d2 ep False i j st = Inr st'"
  shows "snd (snd st') = snd (snd st)"
proof -
  obtain c XY YX where st: "st = (c, XY, YX)" by (cases st) auto
  show ?thesis
  proof (cases "i = j")
    case True
    with assms st show ?thesis by (simp add: legacy_te_pair_def)
  next
    case False
    from assms False st obtain s1 s2 where sl: "legacy_slices d1 d2 ep i j = Inr (s1, s2)"
      by (cases "legacy_slices d1 d2 ep i j") (auto simp: legacy_te_pair_def)
    with False st have "legacy_te_pair f d1 d2 ep False i j st =
      ebind (f c s1 s2 ep) (\<lambda>v.
          ebind (matrix_set XY i j v) (\<lambda>xy1. Inr (Suc c, xy1, YX)))"
      by (simp add: legacy_te_pair_def)
    with assms have "ebind (f c s1 s2 ep) (\<lambda>v.
          ebind (matrix_set XY i j v) (\<lambda>xy1. Inr (Suc c, xy1, YX))) = Inr st'"
      by simp
    then show ?thesis using st by (auto simp: ebind_Inr_iff)
  qed
qed

lemma legacy_te_loop_intra:
  assumes run: "for_each (\<lambda>i. for_each (legacy_te_pair f d1 d2 ep False i) js) is (c0, xy0, yx0) = Inr (c, XY, YX)"
  shows "YX = yx0"
proof -
  have "snd (snd (c, XY, YX)) = yx0"
    by (rule nested_loop_invariant[OF run, where P = "\<lambda>st. snd (snd st) = yx0"])
       (use legacy_te_pair_intra_yx in auto)
  then show ?thesis by simp
qed

lemma check_eeg_data_same:
  assumes "check_eeg_data d ep = Inr s"
  shows "s = d"
  using assms by (auto simp: check_eeg_data_def ebind_Inr_iff split: if_splits)

lemma legacy_compute_te_two:
  assumes "legacy_compute_te F eeg_1 (Some e2) ep mode = Inr r"
  shows "\<exists>te_func n A B. te_estimation_methods F mode = Some te_func
         \<and> shape_at eeg_1 (if ep then 1 else 0) = Inr n
         \<and> r = Two_Matrices A B
         \<and> (\<forall>i<n. \<forall>j<n. \<exists>s1 s2.
                  legacy_slices eeg_1 e2 ep i j = Inr (s1, s2)
                \<and> te_func (2 * (i * n + j)) s1 s2 ep = Inr (A ! i ! j)
                \<and> te_func (Suc (2 * (i * n + j))) s2 s1 ep = Inr (B ! i ! j))"
proof -
  from assms obtain s1 s2 n where
    c1: "check_eeg_data eeg_1 ep = Inr s1" and c2: "check_eeg_data e2 ep = Inr s2"
    and n: "shape_at s1 (if ep then 1 else 0) = Inr n"
    and rest: "(case te_estimation_methods F mode of
          None \<Rightarrow> Inl (ValueError EstimatorNotSupported)
        | Some te_func \<Rightarrow>
            ebind (for_each (\<lambda>i. for_each (legacy_te_pair te_func s1 s2 ep True i) [0..<n])
                     [0..<n] (0, zeros2 n n, zeros2 n n)) (\<lambda>(c, xy, yx).
              Inr (Two_Matrices xy yx))) = Inr r"
    by (auto simp: legacy_compute_te_def ebind_Inr_iff Let_def cong: option.case_cong)
  from check_eeg_data_same[OF c1] check_eeg_data_same[OF c2] have s: "s1 = eeg_1" "s2 = e2" by simp_all
  from rest obtain f where f: "te_estimation_methods F mode = Some f"
    by (cases "te_estimation_methods F mode") auto
  with rest obtain c A B where
    lp: "for_each (\<lambda>i. for_each (legacy_te_pair f s1 s2 ep True i) [0..<n]) [0..<n] (0, zeros2 n n, zeros2 n n)
           = Inr (c, A, B)"
    and r: "r = Two_Matrices A B"
    by (auto simp: ebind_Inr_iff)
  from legacy_te_loop_inter[OF lp] have "legacy_te_inv f s1 s2 ep n n 0 (c, A, B)" .
  then have "\<forall>i<n. \<forall>j<n. \<exists>t1 t2.
                  legacy_slices eeg_1 e2 ep i j = Inr (t1, t2)
                \<and> f (2 * (i * n + j)) t1 t2 ep = Inr (A ! i ! j)
                \<and> f (Suc (2 * (i * n + j))) t2 t1 ep = Inr (B ! i ! j)"
    unfolding s by (auto simp: legacy_te_inv_def legacy_te_entry_def)
  with f n r s show ?thesis by blast
qed

lemma legacy_compute_te_one:
  assumes "legacy_compute_te F eeg_1 None ep mode = Inr r"
  shows "\<exists>te_func n c A. te_estimation_methods F mode = Some te_func
         \<and> shape_at eeg_1 (if ep then 1 else 0) = Inr n
         \<and> for_each (\<lambda>i. for_each (legacy_te_pair te_func eeg_1 eeg_1 ep False i) [0..<n]) [0..<n]
              (0, zeros2 n n, zeros2 n n) = Inr (c, A, zeros2 n n)
         \<and> r = One_Matrix A"
proof -
  from assms obtain s1 n where
    c1: "check_eeg_data eeg_1 ep = Inr s1"
    and n: "shape_at s1 (if ep then 1 else 0) = Inr n"
    and rest: "(case te_estimation_methods F mode of
          None \<Rightarrow> Inl (ValueError EstimatorNotSupported)
        | Some te_func \<Rightarrow>
            ebind (for_each (\<lambda>i. for_each (legacy_te_pair te_func s1 s1 ep False i) [0..<n])
                     [0..<n] (0, zeros2 n n, zeros2 n n)) (\<lambda>(c, xy, yx).
              Inr (One_Matrix xy))) = Inr r"
    by (auto simp: legacy_compute_te_def ebind_Inr_iff Let_def cong: option.case_cong)
  from check_eeg_data_same[OF c1] have s: "s1 = eeg_1" by simp
  from rest obtain f where f: "te_estimation_methods F mode = Some f"
    by (cases "te_estimation_methods F mode") auto
  with rest obtain c A B where
    lp: "for_each (\<lambda>i. for_each (legacy_te_pair f s1 s1 ep False i) [0..<n]) [0..<n] (0, zeros2 n n, zeros2 n n)
           = Inr (c, A, B)"
    and r: "r = One_Matrix A"
    by (auto simp: ebind_Inr_iff)
  from legacy_te_loop_intra[OF lp] have "B = zeros2 n n" .
  with f n r s lp show ?thesis by blast
qed

lemma check_example_data: "check_eeg_data example_data False = Inr example_data"
  "check_eeg_data example_data2 False = Inr example_data2"
  by (simp_all add: check_eeg_data_def example_data_def example_data2_def nth_err_def shape_at_def ndim_def)

lemma legacy_example_one:
  "legacy_compute_te example_te_functions example_data None False ''kernel'' = Inr (One_Matrix [[0, 1], [2, 0]])"
  by (simp add: legacy_compute_te_def check_example_data[unfolded example_data_def example_data2_def] shape.simps te_estimation_methods_def example_te_functions_def
      shape_at_def nth_err_def example_data_def zeros2_def upt_2 legacy_te_pair_def legacy_slices_def legacy_channel_def ndim_def channel_def
      matrix_set_def eval_nat_numeral)

lemma legacy_example_same:
  "legacy_compute_te example_te_functions example_data (Some example_data) False ''kernel''
     = Inr (Two_Matrices [[1, 3], [5, 7]] [[2, 4], [6, 8]])"
  by (simp add: legacy_compute_te_def check_example_data[unfolded example_data_def example_data2_def] shape.simps te_estimation_methods_def example_te_functions_def
      shape_at_def nth_err_def example_data_def zeros2_def upt_2 legacy_te_pair_def legacy_slices_def legacy_channel_def ndim_def channel_def
      matrix_set_def eval_nat_numeral)

lemma legacy_example_two:
  "legacy_compute_te example_te_functions example_data (Some example_data2) False ''kernel''
     = Inr (Two_Matrices [[1, 3], [5, 7]] [[2, 4], [6, 8]])"
  by (simp add: legacy_compute_te_def check_example_data[unfolded example_data_def example_data2_def] shape.simps te_estimation_methods_def example_te_functions_def
      shape_at_def nth_err_def example_data_def example_data2_def zeros2_def upt_2 legacy_te_pair_def legacy_slices_def legacy_channel_def ndim_def channel_def
      matrix_set_def eval_nat_numeral)

lemma compute_te_entries:
  assumes "compute_te J self estimator_type calc_sigstats perm = Inr (XY, YX)"
  shows "\<exists>calc self1 n.
           which_te_estimator self (lower estimator_type) = Inr (calc, self1)
         \<and> loop_range self1 = Inr n
         \<and> (inter_brain self \<longrightarrow>
              (\<forall>i<n. \<forall>j<n. \<exists>s1 s2.
                  slices self1 i j = Inr (s1, s2)
                \<and> estimate_it J calc self1 calc_sigstats perm (2 * (i * n + j)) s1 s2 = Inr (XY ! i ! j)
                \<and> estimate_it J calc self1 calc_sigstats perm (Suc (2 * (i * n + j))) s2 s1 = Inr (YX ! i ! j)))
         \<and> (\<not> inter_brain self \<longrightarrow> YX = zeros n n (n_epo self) 4)"
proof -
  from assms obtain calc self1 xy0 yx0 n c where
    w: "which_te_estimator self (lower estimator_type) = Inr (calc, self1)"
    and al: "te_alloc self1 = Inr xy0" "te_alloc self1 = Inr yx0"
    and lr: "loop_range self1 = Inr n"
    and lp: "for_each (\<lambda>i. for_each (te_pair J self1 calc calc_sigstats perm i) [0..<n]) [0..<n] (0, xy0, yx0)
               = Inr (c, XY, YX)"
    by (auto simp: compute_te_def ebind_Inr_iff split: prod.splits)
  note same = which_te_estimator_self[OF w]
  from te_alloc_zeros[OF al(1)] al lr have z: "xy0 = zeros n n (n_epo self) 4" "yx0 = zeros n n (n_epo self) 4"
    using same(1) by auto
  have inter_part: "\<forall>i<n. \<forall>j<n. \<exists>s1 s2.
                  slices self1 i j = Inr (s1, s2)
                \<and> estimate_it J calc self1 calc_sigstats perm (2 * (i * n + j)) s1 s2 = Inr (XY ! i ! j)
                \<and> estimate_it J calc self1 calc_sigstats perm (Suc (2 * (i * n + j))) s2 s1 = Inr (YX ! i ! j)"
    if "inter_brain self"
  proof -
    from that same(3) have "inter_brain self1" by simp
    from te_loop_inter[OF this lp[unfolded z]]
    have "te_inv J self1 calc calc_sigstats perm n n 0 (c, XY, YX)" .
    then show ?thesis by (auto simp: te_inv_def te_entry_def)
  qed
  have intra_part: "YX = zeros n n (n_epo self) 4" if "\<not> inter_brain self"
  proof -
    from that same(3) have "\<not> inter_brain self1" by simp
    from te_loop_intra[OF this lp] z show ?thesis by simp
  qed
  from w lr inter_part intra_part show ?thesis by blast
qed

text \<open>
  Claim C2, as amended. When \<open>compute_te\<close> of the class returns its two matrices: on an
  inter-brain object every pair \<open>(i, j)\<close> of units is eligible, its X\<open>\<rightarrow>\<close>Y entry is the
  estimate for the slices \<open>(s1, s2)\<close> of that pair and its Y\<open>\<rightarrow>\<close>X entry the estimate
  for \<open>(s2, s1)\<close>, made by the next invocation; on an intra-brain object the second
  matrix is the zero tensor it was allocated as. \<open>compute_te\<close> of the earlier module
  decides by whether a second array was passed: with one, equal to the first or not, it
  returns two matrices filled in the same way for every pair; without one the Y\<open>\<rightarrow>\<close>X
  matrix stays as allocated in the loop and only the first matrix is returned.
\<close>

theorem compute_te_matrices:
  "(compute_te J self estimator_type calc_sigstats perm = Inr (XY, YX) \<longrightarrow>
      (\<exists>calc self1 n.
           which_te_estimator self (lower estimator_type) = Inr (calc, self1)
         \<and> loop_range self1 = Inr n
         \<and> (inter_brain self \<longrightarrow>
              (\<forall>i<n. \<forall>j<n. \<exists>s1 s2.
                  slices self1 i j = Inr (s1, s2)
                \<and> estimate_it J calc self1 calc_sigstats perm (2 * (i * n + j)) s1 s2 = Inr (XY ! i ! j)
                \<and> estimate_it J calc self1 calc_sigstats perm (Suc (2 * (i * n + j))) s2 s1 = Inr (YX ! i ! j)))
         \<and> (\<not> inter_brain self \<longrightarrow> YX = zeros n n (n_epo self) 4)))
   \<and> (legacy_compute_te F eeg_1 eeg_2 epoched mode = Inr r \<longrightarrow>
      (\<exists>te_func n.
           te_estimation_methods F mode = Some te_func
         \<and> shape_at eeg_1 (if epoched then 1 else 0) = Inr n
         \<and> (\<forall>e2. eeg_2 = Some e2 \<longrightarrow>
              (\<exists>A B. r = Two_Matrices A B
                \<and> (\<forall>i<n. \<forall>j<n. \<exists>s1 s2.
                      legacy_slices eeg_1 e2 epoched i j = Inr (s1, s2)
                    \<and> te_func (2 * (i * n + j)) s1 s2 epoched = Inr (A ! i ! j)
                    \<and> te_func (Suc (2 * (i * n + j))) s2 s1 epoched = Inr (B ! i ! j))))
         \<and> (eeg_2 = None \<longrightarrow>
              (\<exists>c A. for_each (\<lambda>i. for_each (legacy_te_pair te_func eeg_1 eeg_1 epoched False i) [0..<n])
                        [0..<n] (0, zeros2 n n, zeros2 n n) = Inr (c, A, zeros2 n n)
                \<and> r = One_Matrix A))))"
proof (intro conjI impI)
  assume "compute_te J self estimator_type calc_sigstats perm = Inr (XY, YX)"
  then show "\<exists>calc self1 n.
           which_te_estimator self (lower estimator_type) = Inr (calc, self1)
         \<and> loop_range self1 = Inr n
         \<and> (inter_brain self \<longrightarrow>
              (\<forall>i<n. \<forall>j<n. \<exists>s1 s2.
                  slices self1 i j = Inr (s1, s2)
                \<and> estimate_it J calc self1 calc_sigstats perm (2 * (i * n + j)) s1 s2 = Inr (XY ! i ! j)
                \<and> estimate_it J calc self1 calc_sigstats perm (Suc (2 * (i * n + j))) s2 s1 = Inr (YX ! i ! j)))
         \<and> (\<not> inter_brain self \<longrightarrow> YX = zeros n n (n_epo self) 4)"
    by (rule compute_te_entries)
next
  assume r: "legacy_compute_te F eeg_1 eeg_2 epoched mode = Inr r"
  show "\<exists>te_func n.
           te_estimation_methods F mode = Some te_func
         \<and> shape_at eeg_1 (if epoched then 1 else 0) = Inr n
         \<and> (\<forall>e2. eeg_2 = Some e2 \<longrightarrow>
              (\<exists>A B. r = Two_Matrices A B
                \<and> (\<forall>i<n. \<forall>j<n. \<exists>s1 s2.
                      legacy_slices eeg_1 e2 epoched i j = Inr (s1, s2)
                    \<and> te_func (2 * (i * n + j)) s1 s2 epoched = Inr (A ! i ! j)
                    \<and> te_func (Suc (2 * (i * n + j))) s2 s1 epoched = Inr (B ! i ! j))))
         \<and> (eeg_2 = None \<longrightarrow>
              (\<exists>c A. for_each (\<lambda>i. for_each (legacy_te_pair te_func eeg_1 eeg_1 epoched False i) [0..<n])
                        [0..<n] (0, zeros2 n n, zeros2 n n) = Inr (c, A, zeros2 n n)
                \<and> r = One_Matrix A))"
  proof (cases eeg_2)
    case None
    with legacy_compute_te_one[of F eeg_1 epoched mode r] r show ?thesis by auto
  next
    case (Some e2)
    with legacy_compute_te_two[of F eeg_1 e2 epoched mode r] r show ?thesis by auto
  qed
qed

lemma compute_te_example_intra:
  "compute_te example_jidt example_intra ''kernel'' False 100 =
     Inr ([[[[0, 0, 0, 0]], [[ln 2, 0, 0, 0]]], [[[2 * ln 2, 0, 0, 0]], [[0, 0, 0, 0]]]],
          [[[[0, 0, 0, 0]], [[0, 0, 0, 0]]], [[[0, 0, 0, 0]], [[0, 0, 0, 0]]]])"
  by (simp add: compute_te_def lower_kernel which_te_estimator_def te_alloc_def loop_range_def
      example_intra_def example_jidt_def example_data_def zeros_def upt_2 te_pair_def slices_def
      channel_def nth_err_def estimate_it_def estimate_epoch_def run_calculator_def tensor_set_def tensor_get_def
      eval_nat_numeral)


text \<open>
  Without a second array the earlier \<open>compute_te\<close> returns one matrix, so there is no
  zero-filled second one; with a second array equal to the first it fills both.
\<close>

theorem compute_te_single_matrix_counterexample:
  "legacy_compute_te example_te_functions example_data None False ''kernel''
     = Inr (One_Matrix [[0, 1], [2, 0]])
   \<and> legacy_compute_te example_te_functions example_data (Some example_data) False ''kernel''
     = Inr (Two_Matrices [[1, 3], [5, 7]] [[2, 4], [6, 8]])"
  by (simp add: legacy_compute_te_def check_example_data[unfolded example_data_def example_data2_def] shape.simps
      te_estimation_methods_def example_te_functions_def
      shape_at_def nth_err_def example_data_def zeros2_def upt_2 legacy_te_pair_def legacy_slices_def legacy_channel_def ndim_def channel_def
      matrix_set_def eval_nat_numeral)

theorem compute_te_matrices_witness:
  "compute_te example_jidt example_inter ''kernel'' False 100 =
     Inr ([[[[ln 2, 0, 0, 0]], [[3 * ln 2, 0, 0, 0]]], [[[5 * ln 2, 0, 0, 0]], [[7 * ln 2, 0, 0, 0]]]],
          [[[[2 * ln 2, 0, 0, 0]], [[4 * ln 2, 0, 0, 0]]], [[[6 * ln 2, 0, 0, 0]], [[8 * ln 2, 0, 0, 0]]]])
   \<and> inter_brain example_inter
   \<and> slices example_inter 0 1 = Inr (Arr [Num 1, Num 2, Num 4], Arr [Num 2, Num 2, Num 7])
   \<and> estimate_it example_jidt TE_Kernel example_inter False 100 2
        (Arr [Num 1, Num 2, Num 4]) (Arr [Num 2, Num 2, Num 7]) = Inr [[3 * ln 2, 0, 0, 0]]
   \<and> estimate_it example_jidt TE_Kernel example_inter False 100 3
        (Arr [Num 2, Num 2, Num 7]) (Arr [Num 1, Num 2, Num 4]) = Inr [[4 * ln 2, 0, 0, 0]]
   \<and> \<not> inter_brain example_intra
   \<and> compute_te example_jidt example_intra ''kernel'' False 100 =
     Inr ([[[[0, 0, 0, 0]], [[ln 2, 0, 0, 0]]], [[[2 * ln 2, 0, 0, 0]], [[0, 0, 0, 0]]]], zeros 2 2 1 4)
   \<and> legacy_compute_te example_te_functions example_data (Some example_data2) False ''kernel''
     = Inr (Two_Matrices [[1, 3], [5, 7]] [[2, 4], [6, 8]])
   \<and> legacy_slices example_data example_data2 False 0 1 = Inr (Arr [Num 1, Num 2, Num 4], Arr [Num 2, Num 2, Num 7])
   \<and> te_kernel example_te_functions 2 (Arr [Num 1, Num 2, Num 4]) (Arr [Num 2, Num 2, Num 7]) False = Inr 3
   \<and> te_kernel example_te_functions 3 (Arr [Num 2, Num 2, Num 7]) (Arr [Num 1, Num 2, Num 4]) False = Inr 4
   \<and> legacy_compute_te example_te_functions example_data None False ''kernel''
     = Inr (One_Matrix [[0, 1], [2, 0]])
   \<and> for_each (\<lambda>i. for_each (legacy_te_pair (te_kernel example_te_functions) example_data example_data False False i) [0..<2])
        [0..<2] (0, zeros2 2 2, zeros2 2 2) = Inr (2, [[0, 1], [2, 0]], zeros2 2 2)"
proof -
  have ib: "inter_brain example_inter" by (simp add: example_inter_def)
  have sl: "slices example_inter 0 1 = Inr (Arr [Num 1, Num 2, Num 4], Arr [Num 2, Num 2, Num 7])"
    by (simp add: slices_def example_inter_def example_data_def example_data2_def channel_def nth_err_def)
  from compute_te_matrices[THEN conjunct1, THEN mp, OF compute_te_example_inter] obtain calc self1 n where
    w: "which_te_estimator example_inter (lower ''kernel'') = Inr (calc, self1)"
    and lr: "loop_range self1 = Inr n"
    and ip: "inter_brain example_inter \<longrightarrow>
              (\<forall>i<n. \<forall>j<n. \<exists>s1 s2.
                  slices self1 i j = Inr (s1, s2)
                \<and> estimate_it example_jidt calc self1 False 100 (2 * (i * n + j)) s1 s2 =
                    Inr ([[[[ln 2, 0, 0, 0]], [[3 * ln 2, 0, 0, 0]]], [[[5 * ln 2, 0, 0, 0]], [[7 * ln 2, 0, 0, 0]]]] ! i ! j)
                \<and> estimate_it example_jidt calc self1 False 100 (Suc (2 * (i * n + j))) s2 s1 =
                    Inr ([[[[2 * ln 2, 0, 0, 0]], [[4 * ln 2, 0, 0, 0]]], [[[6 * ln 2, 0, 0, 0]], [[8 * ln 2, 0, 0, 0]]]] ! i ! j))"
    by blast
  from w have cs: "calc = TE_Kernel" "self1 = example_inter"
    by (simp_all add: which_te_estimator_def lower_kernel)
  from lr cs have n: "n = 2" by (simp add: loop_range_def example_inter_def)
  from ip ib n have "\<exists>s1 s2.
                  slices self1 0 1 = Inr (s1, s2)
                \<and> estimate_it example_jidt calc self1 False 100 (2 * (0 * n + 1)) s1 s2 =
                    Inr ([[[[ln 2, 0, 0, 0]], [[3 * ln 2, 0, 0, 0]]], [[[5 * ln 2, 0, 0, 0]], [[7 * ln 2, 0, 0, 0]]]] ! 0 ! 1)
                \<and> estimate_it example_jidt calc self1 False 100 (Suc (2 * (0 * n + 1))) s2 s1 =
                    Inr ([[[[2 * ln 2, 0, 0, 0]], [[4 * ln 2, 0, 0, 0]]], [[[6 * ln 2, 0, 0, 0]], [[8 * ln 2, 0, 0, 0]]]] ! 0 ! 1)"
    by (metis zero_less_numeral one_less_numeral_iff semiring_norm(76))
  with sl cs have est:
    "estimate_it example_jidt TE_Kernel example_inter False 100 2
        (Arr [Num 1, Num 2, Num 4]) (Arr [Num 2, Num 2, Num 7]) = Inr [[3 * ln 2, 0, 0, 0]]
     \<and> estimate_it example_jidt TE_Kernel example_inter False 100 3
        (Arr [Num 2, Num 2, Num 7]) (Arr [Num 1, Num 2, Num 4]) = Inr [[4 * ln 2, 0, 0, 0]]"
    by (auto simp: eval_nat_numeral)
  have ni: "\<not> inter_brain example_intra" by (simp add: example_intra_def)
  have z: "zeros 2 2 1 4 = [[[[0, 0, 0, 0]], [[0, 0, 0, 0]]], [[[0, 0, 0, 0]], [[0, 0, 0, 0::real]]]]"
    by (simp add: zeros_def eval_nat_numeral)
  from compute_te_matrices[THEN conjunct1, THEN mp, OF compute_te_example_intra] ni compute_te_example_intra
  have "compute_te example_jidt example_intra ''kernel'' False 100 =
     Inr ([[[[0, 0, 0, 0]], [[ln 2, 0, 0, 0]]], [[[2 * ln 2, 0, 0, 0]], [[0, 0, 0, 0]]]], zeros 2 2 1 4)"
    by (simp only: z)
  then have hy: "compute_te example_jidt example_inter ''kernel'' False 100 =
     Inr ([[[[ln 2, 0, 0, 0]], [[3 * ln 2, 0, 0, 0]]], [[[5 * ln 2, 0, 0, 0]], [[7 * ln 2, 0, 0, 0]]]],
          [[[[2 * ln 2, 0, 0, 0]], [[4 * ln 2, 0, 0, 0]]], [[[6 * ln 2, 0, 0, 0]], [[8 * ln 2, 0, 0, 0]]]])
   \<and> inter_brain example_inter
   \<and> slices example_inter 0 1 = Inr (Arr [Num 1, Num 2, Num 4], Arr [Num 2, Num 2, Num 7])
   \<and> estimate_it example_jidt TE_Kernel example_inter False 100 2
        (Arr [Num 1, Num 2, Num 4]) (Arr [Num 2, Num 2, Num 7]) = Inr [[3 * ln 2, 0, 0, 0]]
   \<and> estimate_it example_jidt TE_Kernel example_inter False 100 3
        (Arr [Num 2, Num 2, Num 7]) (Arr [Num 1, Num 2, Num 4]) = Inr [[4 * ln 2, 0, 0, 0]]
   \<and> \<not> inter_brain example_intra
   \<and> compute_te example_jidt example_intra ''kernel'' False 100 =
     Inr ([[[[0, 0, 0, 0]], [[ln 2, 0, 0, 0]]], [[[2 * ln 2, 0, 0, 0]], [[0, 0, 0, 0]]]], zeros 2 2 1 4)"
    using compute_te_example_inter ib sl est ni by blast
  have lsl: "legacy_slices example_data example_data2 False 0 1 = Inr (Arr [Num 1, Num 2, Num 4], Arr [Num 2, Num 2, Num 7])"
    by (simp add: legacy_slices_def legacy_channel_def ndim_def example_data_def example_data2_def channel_def nth_err_def)
  have sh: "shape_at example_data (if False then 1 else 0) = Inr 2"
    by (simp add: shape_at_def nth_err_def example_data_def)
  have tk: "te_estimation_methods example_te_functions ''kernel'' = Some (te_kernel example_te_functions)"
    by (simp add: te_estimation_methods_def)
  from compute_te_matrices[THEN conjunct2, THEN mp, OF legacy_example_two] sh tk
  have "\<forall>i<2. \<forall>j<2. \<exists>s1 s2.
          legacy_slices example_data example_data2 False i j = Inr (s1, s2)
        \<and> te_kernel example_te_functions (2 * (i * 2 + j)) s1 s2 False = Inr ([[1, 3], [5, 7]] ! i ! j)
        \<and> te_kernel example_te_functions (Suc (2 * (i * 2 + j))) s2 s1 False = Inr ([[2, 4], [6, 8]] ! i ! j)"
    by auto
  then have "\<exists>s1 s2.
          legacy_slices example_data example_data2 False 0 1 = Inr (s1, s2)
        \<and> te_kernel example_te_functions (2 * (0 * 2 + 1)) s1 s2 False = Inr ([[1, 3], [5, 7]] ! 0 ! 1)
        \<and> te_kernel example_te_functions (Suc (2 * (0 * 2 + 1))) s2 s1 False = Inr ([[2, 4], [6, 8]] ! 0 ! 1)"
    by (metis zero_less_numeral one_less_numeral_iff semiring_norm(76))
  with lsl have lest:
    "te_kernel example_te_functions 2 (Arr [Num 1, Num 2, Num 4]) (Arr [Num 2, Num 2, Num 7]) False = Inr 3
     \<and> te_kernel example_te_functions 3 (Arr [Num 2, Num 2, Num 7]) (Arr [Num 1, Num 2, Num 4]) False = Inr 4"
    by (auto simp: eval_nat_numeral)
  from compute_te_matrices[THEN conjunct2, THEN mp, OF legacy_example_one] sh tk
  have "for_each (\<lambda>i. for_each (legacy_te_pair (te_kernel example_te_functions) example_data example_data False False i) [0..<2])
        [0..<2] (0, zeros2 2 2, zeros2 2 2) = Inr (2, [[0, 1], [2, 0]], zeros2 2 2)"
    by (auto simp: example_te_functions_def example_data_def zeros2_def upt_2 legacy_te_pair_def
        legacy_slices_def legacy_channel_def ndim_def channel_def nth_err_def matrix_set_def eval_nat_numeral)
  with hy legacy_example_two lsl lest legacy_example_one show ?thesis by blast
qed

section \<open>Symbolic estimator: the counting loop\<close>










lemma digit_chars:
  "char_of (49 :: nat) = CHR ''1''" "char_of (53 :: nat) = CHR ''5''" "char_of (55 :: nat) = CHR ''7''"
  by code_simp+

lemma count_loop_example:
  "count_loop [5, 7, 5] [1, 1, 2] =
     Inr ([(''5,1'', 1), (''7,1'', 1)], [(''5'', 1), (''7'', 1)], [(''1'', 2)])"
  by (simp add: count_loop_def count_step_def nth_err_def dict_incr_def str_nat.simps upt_2 digit_chars)

section \<open>Freedman-Diaconis bin count\<close>






lemma flat_np_array: "flat (np_array xs) = xs"
  by (induction xs) (simp_all add: np_array_def)

lemma fd_bins_of_np_array:
  "fd_bins_of (np_array xs) =
     (if xs = [] then Inl (ValueError EmptyReduction)
      else Inr (np_ceil (np_div (fl (ptp xs)) (fd_divisor xs (length xs)))))"
  using flat_np_array[of xs] by (simp add: fd_bins_of_def np_array_def)
















lemma eight_powr: "(8::real) powr (- 1 / 3) = 1 / 2" "(8::real) powr - (1 / 3) = 1 / 2"
proof -
  have "(8::real) = 2 powr 3" by simp
  then have "(8::real) powr (- 1 / 3) = (2 powr 3) powr (- 1 / 3)" by simp
  also have "\<dots> = 2 powr (- 1)" by (simp only: powr_powr) simp
  also have "\<dots> = 1 / 2" by (simp add: powr_minus_divide)
  finally show "(8::real) powr (- 1 / 3) = 1 / 2" .
  then show "(8::real) powr - (1 / 3) = 1 / 2" by simp
qed


lemma iqr_example:
  "iqr example_ramp = 7 / 2" "iqr example_even = 7" "iqr example_flat = 0"
  "iqr example_extreme = 1 / 2 ^ 700" "iqr example_huge = 2 ^ 1023"
  by (simp_all add: example_ramp_def example_even_def example_flat_def example_extreme_def
      example_huge_def iqr_def percentile_def Let_def eval_nat_numeral)

lemma ptp_example:
  "ptp example_ramp = 7" "ptp example_even = 14" "ptp example_flat = 4"
  "ptp example_extreme = 2 ^ 700" "ptp example_huge = 2 ^ 1023"
  by (simp_all add: example_ramp_def example_even_def example_flat_def example_extreme_def
      example_huge_def ptp_def)

lemma length_example:
  "length example_ramp = 8" "length example_even = 8" "length example_flat = 5"
  "length example_extreme = 8" "length example_huge = 8"
  "example_ramp \<noteq> []" "example_even \<noteq> []" "example_flat \<noteq> []" "example_extreme \<noteq> []"
  "example_huge \<noteq> []"
  by (simp_all add: example_ramp_def example_even_def example_flat_def example_extreme_def
      example_huge_def)




lemma calc_fd_bins_zero_iqr_example:
  "calc_fd_bins (np_array example_flat) (np_array example_ramp) = Inl OverflowError"
  by (simp add: calc_fd_bins_def fd_bins_of_np_array fd_divisor_def iqr_example ptp_example length_example eight_powr
      fl_def overflow_threshold_def underflow_threshold_def)



end
